theory Spec2Isabelle
  imports Complex_Main "HOL-Library.Sublist" "HOL-Library.AList"
begin

section \<open>Python values used by the runner manager\<close>

text \<open>
  The repository is a Python service that provisions one cloud instance per queued CI job.
  Strings are modelled as \<open>string\<close>, a character standing for a code point below 256;
  Python's unbounded integers are \<open>int\<close>,
  dictionaries whose iteration order matters as association lists in insertion order,
  and an exception as the left injection of a sum type.
\<close>

datatype py_error = ValueError | IndexError | AttributeError | BotoCoreError

text \<open>What a function with no \<open>return\<close> value gives, beside a Boolean.\<close>

datatype py_value = PyNone | PyBool bool

text \<open>Truthiness of an \<open>Optional[str]\<close>: \<open>not x\<close> holds for \<open>None\<close> and for the empty string.\<close>

definition falsy :: "string option \<Rightarrow> bool" where
  "falsy x = (case x of None \<Rightarrow> True | Some s \<Rightarrow> s = [])"

text \<open>\<open>s.split(c)\<close> for a one-character separator.\<close>

fun split_on :: "char \<Rightarrow> string \<Rightarrow> string list" where
  "split_on c [] = [[]]"
| "split_on c (x # xs) =
     (if x = c then [] # split_on c xs
      else (case split_on c xs of
              [] \<Rightarrow> [[x]]
            | w # ws \<Rightarrow> (x # w) # ws))"

text \<open>
  \<open>s.split(c, 1)\<close> under the guard \<open>c in s\<close>: the text before the first separator and
  the text after it; \<open>None\<close> when the separator does not occur.
\<close>

definition split_once :: "char \<Rightarrow> string \<Rightarrow> (string \<times> string) option" where
  "split_once c s =
     (if c \<in> set s then Some (takeWhile (\<lambda>x. x \<noteq> c) s, tl (dropWhile (\<lambda>x. x \<noteq> c) s))
      else None)"

text \<open>\<open>s.replace(old, "")\<close>: every non-overlapping occurrence of \<open>old\<close>, left to right.\<close>

fun py_remove :: "string \<Rightarrow> string \<Rightarrow> string" where
  "py_remove old [] = []"
| "py_remove old (x # xs) =
     (if old \<noteq> [] \<and> prefix old (x # xs) then py_remove old (drop (length old) (x # xs))
      else x # py_remove old xs)"

text \<open>
  \<open>int(s)\<close> in base ten. The whitespace it strips at both ends is the ASCII whitespace
  (tab, line feed, vertical tab, form feed, carriage return, space) and the two other
  space characters below 256, U+0085 and U+00A0; the separators U+001C to U+001F are not
  stripped. One sign is allowed, and the rest is a run of decimal digits in which single
  underscores may separate digits. A text with more digits than the interpreter's limit
  (4300 unless reconfigured, which the program does not do) is refused. Every refusal
  raises \<open>ValueError\<close>, here \<open>None\<close>.
\<close>

definition is_py_space :: "char \<Rightarrow> bool" where
  "is_py_space c =
     (let n = (of_char c :: nat) in n = 32 \<or> (9 \<le> n \<and> n \<le> 13) \<or> n = 133 \<or> n = 160)"

definition int_max_str_digits :: nat where
  "int_max_str_digits = 4300"

definition is_digit :: "char \<Rightarrow> bool" where
  "is_digit c = (48 \<le> (of_char c :: nat) \<and> (of_char c :: nat) \<le> 57)"

definition digit_val :: "char \<Rightarrow> nat" where
  "digit_val c = of_char c - 48"

fun py_digits :: "nat \<Rightarrow> string \<Rightarrow> nat option" where
  "py_digits acc [] = Some acc"
| "py_digits acc (c # cs) =
     (if is_digit c then py_digits (10 * acc + digit_val c) cs
      else if c = CHR ''_'' then
        (case cs of
           [] \<Rightarrow> None
         | d # ds \<Rightarrow> if is_digit d then py_digits (10 * acc + digit_val d) ds else None)
      else None)"

definition py_unsigned :: "string \<Rightarrow> nat option" where
  "py_unsigned s =
     (if length (filter is_digit s) > int_max_str_digits then None
      else
        (case s of
           [] \<Rightarrow> None
         | c # cs \<Rightarrow> if is_digit c then py_digits (digit_val c) cs else None))"

definition py_strip :: "string \<Rightarrow> string" where
  "py_strip s = rev (dropWhile is_py_space (rev (dropWhile is_py_space s)))"

definition py_int :: "string \<Rightarrow> int option" where
  "py_int s =
     (case py_strip s of
        [] \<Rightarrow> None
      | c # cs \<Rightarrow>
          if c = CHR ''-'' then map_option (\<lambda>n. - int n) (py_unsigned cs)
          else if c = CHR ''+'' then map_option int (py_unsigned cs)
          else map_option int (py_unsigned (c # cs)))"

text \<open>\<open>str(n)\<close> for an integer, as an f-string renders it.\<close>

definition digit_char :: "nat \<Rightarrow> char" where
  "digit_char d = char_of (48 + d)"

fun str_nat :: "nat \<Rightarrow> string" where
  "str_nat n = (if n < 10 then [digit_char n] else str_nat (n div 10) @ [digit_char (n mod 10)])"

declare str_nat.simps [simp del]

definition str_int :: "int \<Rightarrow> string" where
  "str_int i = (if i < 0 then CHR ''-'' # str_nat (nat (- i)) else str_nat (nat i))"

text \<open>The job id of a payload may be absent; an f-string renders \<open>None\<close> as the word.\<close>

definition str_job_id :: "int option \<Rightarrow> string" where
  "str_job_id j = (case j of None \<Rightarrow> ''None'' | Some i \<Rightarrow> str_int i)"

section \<open>Process configuration (config.py)\<close>

text \<open>
  The fields of \<open>Config\<close> that the modelled code reads. The class declares no field
  \<open>github_webhook_secret\<close>.
\<close>

record Config =
  github_token :: string
  github_org :: string
  default_instance_type :: string
  default_ami_id :: string
  runner_labels :: "string list"
  runner_idle_timeout :: int

section \<open>Label parsing (runner_manager.py, job_poller.py)\<close>

text \<open>
  The dictionary built by both parsers. A key that a parser may leave unset is an option.
\<close>

record runner_config =
  instance_type :: string
  ami_id :: string
  labels :: "string list"
  max_price :: string
  run_id :: "string option"
  memory :: "string option"
  work_folder :: "string option"

definition cpu_map :: "(int \<times> string) list" where
  "cpu_map =
     [(1, ''t3.micro''), (2, ''t3.medium''), (4, ''t3.xlarge''), (8, ''t3.2xlarge''),
      (16, ''m5.4xlarge''), (32, ''m5.8xlarge''), (64, ''m5.16xlarge'')]"

text \<open>
  \<open>_cpu_to_instance_type\<close>, which both classes define with the same table and the same
  loop over \<open>sorted(cpu_map.items())\<close>: the first entry whose key reaches the count.
\<close>

fun first_fit :: "int \<Rightarrow> (int \<times> string) list \<Rightarrow> string option" where
  "first_fit cpu_count [] = None"
| "first_fit cpu_count ((cpu, ty) # rest) =
     (if cpu \<ge> cpu_count then Some ty else first_fit cpu_count rest)"

definition cpu_to_instance_type :: "int \<Rightarrow> string" where
  "cpu_to_instance_type cpu_count =
     (case first_fit cpu_count (sort_key fst cpu_map) of
        Some ty \<Rightarrow> ty
      | None \<Rightarrow> ''m5.16xlarge'')"

text \<open>
  \<open>RunnerManager.parse_runs_on_config\<close>, one iteration of its loop. The two prefix tests
  come first; \<open>item.split('=')[1]\<close> is the second element of the full split.
\<close>

definition second_field :: "string \<Rightarrow> py_error + string" where
  "second_field item =
     (case split_on CHR ''='' item of
        _ # v # _ \<Rightarrow> Inr v
      | _ \<Rightarrow> Inl IndexError)"

definition parse_runs_on_item :: "string \<Rightarrow> runner_config \<Rightarrow> py_error + runner_config" where
  "parse_runs_on_item item rc =
     (if prefix ''runs-on='' item then
        (case second_field item of
           Inl e \<Rightarrow> Inl e
         | Inr v \<Rightarrow> Inr (rc\<lparr>run_id := Some v\<rparr>))
      else if prefix ''instanceType='' item then
        (case second_field item of
           Inl e \<Rightarrow> Inl e
         | Inr v \<Rightarrow> Inr (rc\<lparr>instance_type := v\<rparr>))
      else
        (case split_once CHR ''='' item of
           None \<Rightarrow> Inr rc
         | Some (key, val) \<Rightarrow>
             if key = ''family'' then Inr (rc\<lparr>instance_type := val\<rparr>)
             else if key = ''cpu'' then
               (case py_int val of
                  None \<Rightarrow> Inl ValueError
                | Some n \<Rightarrow> Inr (rc\<lparr>instance_type := cpu_to_instance_type n\<rparr>))
             else if key = ''memory'' \<or> key = ''ram'' then Inr (rc\<lparr>memory := Some val\<rparr>)
             else if key = ''image'' then Inr (rc\<lparr>ami_id := val\<rparr>)
             else if key = ''maxPrice'' then Inr (rc\<lparr>max_price := val\<rparr>)
             else if key = ''labels'' then Inr (rc\<lparr>labels := split_on CHR '','' val\<rparr>)
             else Inr rc))"

fun parse_runs_on_loop :: "string list \<Rightarrow> runner_config \<Rightarrow> py_error + runner_config" where
  "parse_runs_on_loop [] rc = Inr rc"
| "parse_runs_on_loop (item # rest) rc =
     (case parse_runs_on_item item rc of
        Inl e \<Rightarrow> Inl e
      | Inr rc' \<Rightarrow> parse_runs_on_loop rest rc')"

definition parse_runs_on_config :: "Config \<Rightarrow> string list \<Rightarrow> py_error + runner_config" where
  "parse_runs_on_config cfg runs_on =
     parse_runs_on_loop runs_on
       \<lparr>instance_type = default_instance_type cfg, ami_id = default_ami_id cfg,
        labels = runner_labels cfg, max_price = ''0.10'',
        run_id = None, memory = None, work_folder = None\<rparr>"

text \<open>\<open>JobPoller._parse_runner_config\<close>: every label is split at its first \<open>=\<close>.\<close>

definition parse_runner_label :: "string \<Rightarrow> runner_config \<Rightarrow> py_error + runner_config" where
  "parse_runner_label label rc =
     (case split_once CHR ''='' label of
        None \<Rightarrow> Inr rc
      | Some (key, val) \<Rightarrow>
          if key = ''instanceType'' then Inr (rc\<lparr>instance_type := val\<rparr>)
          else if key = ''cpu'' then
            (case py_int val of
               None \<Rightarrow> Inl ValueError
             | Some n \<Rightarrow> Inr (rc\<lparr>instance_type := cpu_to_instance_type n\<rparr>))
          else if key = ''memory'' \<or> key = ''ram'' then Inr (rc\<lparr>memory := Some val\<rparr>)
          else if key = ''image'' then Inr (rc\<lparr>ami_id := val\<rparr>)
          else if key = ''maxPrice'' then Inr (rc\<lparr>max_price := val\<rparr>)
          else if key = ''workFolder'' then Inr (rc\<lparr>work_folder := Some val\<rparr>)
          else if key = ''labels'' then Inr (rc\<lparr>labels := split_on CHR '','' val\<rparr>)
          else Inr rc)"

fun parse_runner_loop :: "string list \<Rightarrow> runner_config \<Rightarrow> py_error + runner_config" where
  "parse_runner_loop [] rc = Inr rc"
| "parse_runner_loop (label # rest) rc =
     (case parse_runner_label label rc of
        Inl e \<Rightarrow> Inl e
      | Inr rc' \<Rightarrow> parse_runner_loop rest rc')"

definition parse_runner_config :: "Config \<Rightarrow> string list \<Rightarrow> py_error + runner_config" where
  "parse_runner_config cfg lbls =
     parse_runner_loop lbls
       \<lparr>instance_type = default_instance_type cfg, ami_id = default_ami_id cfg,
        labels = runner_labels cfg, max_price = ''0.10'',
        run_id = None, memory = None, work_folder = Some ''/home/runner/_work''\<rparr>"


section \<open>External collaborators\<close>

text \<open>
  The cloud provider and the CI provider are reached through wrappers. The GitHub clients
  catch every exception and return \<open>None\<close>, \<open>[]\<close> or \<open>False\<close>. \<open>AWSManager\<close>
  catches the provider's \<open>ClientError\<close> only, so a request to the provider has three
  outcomes: it returns, it raises \<open>ClientError\<close>, or it raises something else (a
  connection or credential error of the client library), which leaves the wrapper as an
  exception. The answers of the outside world during one call are the fields of an
  environment; every request the code issues is appended to a list of calls, so that a
  theorem can say which requests were made and in which order.

  Time stamps are the real numbers that the interpreter's floats denote. The one
  arithmetic expression on them, \<open>(current_time - launch_time) / 3600\<close>, is evaluated
  in floating point by the program; its result is a field of the environment and no
  property of it is assumed.
\<close>

record instance_config =
  ic_instance_type :: string
  ic_ami_id :: string
  ic_max_price :: string
  ic_owner :: "string option"
  ic_repo :: "string option"
  ic_registration_token :: string
  ic_labels :: "string list"
  ic_github_token :: "string option"

text \<open>One instance of a \<open>describe_instances\<close> answer, and the dictionary built from it.\<close>

record ec2_instance =
  InstanceId :: string
  Tags :: "(string \<times> string) list"
  StateName :: string
  LaunchTime :: real
  InstanceType :: string

record runner_instance =
  ri_instance_id :: string
  ri_runner_name :: "string option"
  ri_state :: string
  ri_launch_time :: real
  ri_instance_type :: string

datatype 'a outcome = Returns 'a | ClientError | Raises

datatype call =
    GetRunnerRegistrationToken string string
  | GetRunnerRemoveToken string string
  | ListRunners string string
  | RemoveRunner string string int
  | CreateSpotInstance string instance_config
  | TerminateInstances string
  | DescribeInstances "(string \<times> string list) list"
  | GetRegistrationToken string
  | ListScaleSets string
  | CreateScaleSet string string
  | DeleteScaleSet string string

record env =
  uuid4_hex :: "nat \<Rightarrow> string"
  now :: real
  float_age_hours :: "real \<Rightarrow> real \<Rightarrow> real"
  get_runner_registration_token :: "string \<Rightarrow> string \<Rightarrow> string option"
  get_runner_remove_token :: "string \<Rightarrow> string \<Rightarrow> string option"
  list_runners :: "string \<Rightarrow> string \<Rightarrow> (string \<times> int) list"
  remove_runner :: "string \<Rightarrow> string \<Rightarrow> int \<Rightarrow> bool"
  create_spot_instance :: "string \<Rightarrow> instance_config \<Rightarrow> py_error + string option"
  ec2_terminate_instances :: "string \<Rightarrow> unit outcome"
  ec2_describe_instances :: "(string \<times> string list) list \<Rightarrow> ec2_instance list list outcome"
  get_registration_token :: "string \<Rightarrow> string option"
  list_scale_sets :: "string \<Rightarrow> string list"
  create_scale_set :: "string \<Rightarrow> string \<Rightarrow> string option"
  delete_scale_set :: "string \<Rightarrow> string \<Rightarrow> bool"

text \<open>
  \<open>uuid4_hex env k\<close> is the hex form of the \<open>k\<close>-th identifier drawn during the call;
  \<open>float_age_hours env current_time launch_time\<close> is the float that the age expression
  evaluates to; \<open>list_runners\<close> gives the name and id of each registered runner;
  \<open>list_scale_sets\<close> gives \<open>str(scale_set.get("id"))\<close> of each group;
  \<open>create_spot_instance\<close> is the result of \<open>AWSManager.create_spot_instance\<close>, the
  instance id once the provider reports the request fulfilled, \<open>None\<close> when it does not
  or raises \<open>ClientError\<close>, and an error when another exception leaves the wrapper;
  \<open>ec2_describe_instances\<close> takes the filters of the request.
\<close>

section \<open>AWSManager (aws_manager.py)\<close>

definition terminate_instance ::
  "env \<Rightarrow> string \<Rightarrow> call list \<Rightarrow> (py_error + bool) \<times> call list" where
  "terminate_instance e instance_id calls =
     (case ec2_terminate_instances e instance_id of
        Returns u \<Rightarrow> Inr True
      | ClientError \<Rightarrow> Inr False
      | Raises \<Rightarrow> Inl BotoCoreError,
      calls @ [TerminateInstances instance_id])"

definition runner_instance_filters :: "(string \<times> string list) list" where
  "runner_instance_filters =
     [(''tag:Type'', [''github-actions-runner'']),
      (''instance-state-name'', [''running'', ''pending''])]"

text \<open>The dictionary that \<open>list_runner_instances\<close> appends for one instance.\<close>

definition runner_instance_of :: "ec2_instance \<Rightarrow> runner_instance" where
  "runner_instance_of i =
     \<lparr>ri_instance_id = InstanceId i,
      ri_runner_name = map_of (Tags i) ''RunnerName'',
      ri_state = StateName i,
      ri_launch_time = LaunchTime i,
      ri_instance_type = InstanceType i\<rparr>"

definition list_runner_instances ::
  "env \<Rightarrow> call list \<Rightarrow> (py_error + runner_instance list) \<times> call list" where
  "list_runner_instances e calls =
     (case ec2_describe_instances e runner_instance_filters of
        Returns reservations \<Rightarrow> Inr (map runner_instance_of (concat reservations))
      | ClientError \<Rightarrow> Inr []
      | Raises \<Rightarrow> Inl BotoCoreError,
      calls @ [DescribeInstances runner_instance_filters])"

text \<open>
  The loop of \<open>cleanup_old_instances\<close>. An exception from \<open>terminate_instance\<close> ends it:
  the function has no handler of its own.
\<close>

fun cleanup_old_loop ::
  "env \<Rightarrow> real \<Rightarrow> real \<Rightarrow> runner_instance list \<Rightarrow> int \<Rightarrow> call list
     \<Rightarrow> (py_error + int) \<times> call list" where
  "cleanup_old_loop e current_time max_age_hours [] cleaned_count calls =
     (Inr cleaned_count, calls)"
| "cleanup_old_loop e current_time max_age_hours (inst # rest) cleaned_count calls =
     (let age_hours = float_age_hours e current_time (ri_launch_time inst) in
      if age_hours > max_age_hours then
        (case terminate_instance e (ri_instance_id inst) calls of
           (Inl err, calls') \<Rightarrow> (Inl err, calls')
         | (Inr ok, calls') \<Rightarrow>
             cleanup_old_loop e current_time max_age_hours rest
               (if ok then cleaned_count + 1 else cleaned_count) calls')
      else cleanup_old_loop e current_time max_age_hours rest cleaned_count calls)"

definition cleanup_old_instances ::
  "env \<Rightarrow> real \<Rightarrow> call list \<Rightarrow> (py_error + int) \<times> call list" where
  "cleanup_old_instances e max_age_hours calls =
     (case list_runner_instances e calls of
        (Inl err, calls') \<Rightarrow> (Inl err, calls')
      | (Inr instances, calls') \<Rightarrow>
          cleanup_old_loop e (now e) max_age_hours instances 0 calls')"

section \<open>GitHubClient.parse_repository_from_url (github_client.py)\<close>

definition parse_repository_from_url :: "string \<Rightarrow> string option \<times> string option" where
  "parse_repository_from_url repo_url =
     (if prefix ''https://github.com/'' repo_url then
        (case split_on CHR ''/'' (py_remove ''https://github.com/'' repo_url) of
           a # b # _ \<Rightarrow> (Some a, Some b)
         | _ \<Rightarrow> (None, None))
      else if CHR ''/'' \<in> set repo_url then
        (case split_on CHR ''/'' repo_url of
           a # b # _ \<Rightarrow> (Some a, Some b)
         | _ \<Rightarrow> (None, None))
      else (None, None))"

section \<open>RunnerManager (runner_manager.py)\<close>

record rm_runner =
  rm_instance_id :: string
  rm_owner :: string
  rm_repo :: string
  rm_created_at :: real
  rm_status :: string
  rm_config :: runner_config

record rm_state =
  rm_active_runners :: "(string \<times> rm_runner) list"
  rm_calls :: "call list"

text \<open>The parsed body of a notification: the keys the handlers read.\<close>

record payload =
  action :: "string option"
  workflow_job_id :: "int option"
  workflow_job_labels :: "string list"
  repository_html_url :: string

definition create_runner ::
  "Config \<Rightarrow> env \<Rightarrow> string \<Rightarrow> string \<Rightarrow> string \<Rightarrow> runner_config \<Rightarrow> rm_state \<Rightarrow> bool \<times> rm_state" where
  "create_runner cfg e runner_name owner repo rc s =
     (let s1 = s\<lparr>rm_calls := rm_calls s @ [GetRunnerRegistrationToken owner repo]\<rparr> in
      case get_runner_registration_token e owner repo of
        None \<Rightarrow> (False, s1)
      | Some reg_token \<Rightarrow>
          if reg_token = [] then (False, s1)
          else
            (let ic = \<lparr>ic_instance_type = instance_type rc, ic_ami_id = ami_id rc,
                       ic_max_price = max_price rc, ic_owner = Some owner, ic_repo = Some repo,
                       ic_registration_token = reg_token, ic_labels = labels rc,
                       ic_github_token = Some (github_token cfg)\<rparr>;
                 s2 = s1\<lparr>rm_calls := rm_calls s1 @ [CreateSpotInstance runner_name ic]\<rparr>
             in case create_spot_instance e runner_name ic of
                  Inl err \<Rightarrow> (False, s2)
                | Inr None \<Rightarrow> (False, s2)
                | Inr (Some instance_id) \<Rightarrow>
                    if instance_id = [] then (False, s2)
                    else
                      (True,
                       s2\<lparr>rm_active_runners :=
                            AList.update runner_name
                              \<lparr>rm_instance_id = instance_id, rm_owner = owner, rm_repo = repo,
                               rm_created_at = now e, rm_status = ''starting'',
                               rm_config = rc\<rparr>
                              (rm_active_runners s2)\<rparr>)))"

definition handle_workflow_job_queued ::
  "Config \<Rightarrow> env \<Rightarrow> payload \<Rightarrow> rm_state \<Rightarrow> bool \<times> rm_state" where
  "handle_workflow_job_queued cfg e p s =
     (let job_id = workflow_job_id p;
          runs_on = workflow_job_labels p;
          repo_url = repository_html_url p
      in if \<not> list_ex (\<lambda>label. sublist ''runs-on='' label) runs_on then (False, s)
         else
           (case parse_repository_from_url repo_url of
              (Some owner, Some repo) \<Rightarrow>
                if owner = [] \<or> repo = [] then (False, s)
                else
                  (case parse_runs_on_config cfg runs_on of
                     Inl err \<Rightarrow> (False, s)
                   | Inr rc \<Rightarrow>
                       (let runner_name =
                              ''runner-'' @ str_job_id job_id @ ''-'' @ take 8 (uuid4_hex e 0)
                        in create_runner cfg e runner_name owner repo rc s))
            | _ \<Rightarrow> (False, s)))"

text \<open>
  The search loops of the completion handler and of the cleanup routine. In
  \<open>cleanup_runner\<close> an exception from \<open>terminate_instance\<close> reaches the handler of the
  routine, which returns \<open>False\<close>: the record is then still in the registry.
\<close>

fun find_runner_name :: "string \<Rightarrow> (string \<times> rm_runner) list \<Rightarrow> string option" where
  "find_runner_name needle [] = None"
| "find_runner_name needle ((name, info) # rest) =
     (if sublist needle name then Some name else find_runner_name needle rest)"

fun find_runner_id :: "string \<Rightarrow> (string \<times> int) list \<Rightarrow> int option" where
  "find_runner_id runner_name [] = None"
| "find_runner_id runner_name ((name, rid) # rest) =
     (if name = runner_name then Some rid else find_runner_id runner_name rest)"

definition cleanup_runner :: "env \<Rightarrow> string \<Rightarrow> rm_state \<Rightarrow> bool \<times> rm_state" where
  "cleanup_runner e runner_name s =
     (case map_of (rm_active_runners s) runner_name of
        None \<Rightarrow> (False, s)
      | Some runner_info \<Rightarrow>
          (let instance_id = rm_instance_id runner_info;
               owner = rm_owner runner_info;
               repo = rm_repo runner_info;
               c1 = rm_calls s @ [GetRunnerRemoveToken owner repo];
               c2 = (if falsy (get_runner_remove_token e owner repo) then c1
                     else
                       (case find_runner_id runner_name (list_runners e owner repo) of
                          None \<Rightarrow> c1 @ [ListRunners owner repo]
                        | Some rid \<Rightarrow> c1 @ [ListRunners owner repo, RemoveRunner owner repo rid]))
           in case terminate_instance e instance_id c2 of
                (Inl err, c3) \<Rightarrow> (False, s\<lparr>rm_calls := c3\<rparr>)
              | (Inr ok, c3) \<Rightarrow>
                  (True,
                   s\<lparr>rm_active_runners := AList.delete runner_name (rm_active_runners s),
                     rm_calls := c3\<rparr>)))"

definition handle_workflow_job_completed :: "env \<Rightarrow> payload \<Rightarrow> rm_state \<Rightarrow> bool \<times> rm_state" where
  "handle_workflow_job_completed e p s =
     (let job_id = workflow_job_id p in
      case find_runner_name (''runner-'' @ str_job_id job_id) (rm_active_runners s) of
        None \<Rightarrow> (False, s)
      | Some runner_name \<Rightarrow>
          if runner_name = [] then (False, s)
          else (True, snd (cleanup_runner e runner_name s)))"

section \<open>JobPoller (job_poller.py)\<close>

record jp_runner =
  jp_job_id :: int
  jp_instance_id :: string
  jp_scale_set_id :: string
  jp_scale_set_name :: string
  jp_repository :: string
  jp_created_at :: real
  jp_status :: string
  jp_config :: runner_config

record jp_state =
  jp_active_runners :: "(string \<times> jp_runner) list"
  scale_sets :: "(string \<times> string) list"
  jp_calls :: "call list"

text \<open>A queued job as \<open>get_queued_jobs\<close> returns it.\<close>

record job =
  job_id :: int
  job_labels :: "string list"
  job_repository :: string

definition should_create_runner_for_job :: "job \<Rightarrow> jp_state \<Rightarrow> bool" where
  "should_create_runner_for_job j s =
     (if \<not> list_ex (\<lambda>label. sublist ''runs-on='' label) (job_labels j) then False
      else if list_ex (\<lambda>(name, runner_info). jp_job_id runner_info = job_id j)
                (jp_active_runners s) then False
      else True)"

definition get_or_create_scale_set ::
  "env \<Rightarrow> string \<Rightarrow> string \<Rightarrow> jp_state \<Rightarrow> string option \<times> jp_state" where
  "get_or_create_scale_set e org scale_set_name s =
     (case map_of (scale_sets s) scale_set_name of
        Some sid \<Rightarrow> (Some sid, s)
      | None \<Rightarrow>
          (let s1 = s\<lparr>jp_calls := jp_calls s @ [ListScaleSets org]\<rparr> in
           case list_scale_sets e org of
             sid # _ \<Rightarrow>
               (Some sid, s1\<lparr>scale_sets := AList.update scale_set_name sid (scale_sets s1)\<rparr>)
           | [] \<Rightarrow>
               (let s2 = s1\<lparr>jp_calls := jp_calls s1 @ [CreateScaleSet org scale_set_name]\<rparr> in
                case create_scale_set e org scale_set_name of
                  None \<Rightarrow> (None, s2)
                | Some sid \<Rightarrow>
                    if sid = [] then (Some sid, s2)
                    else
                      (Some sid,
                       s2\<lparr>scale_sets := AList.update scale_set_name sid (scale_sets s2)\<rparr>))))"

definition create_runner_for_job :: "Config \<Rightarrow> env \<Rightarrow> string \<Rightarrow> job \<Rightarrow> jp_state \<Rightarrow> jp_state" where
  "create_runner_for_job cfg e org j s =
     (case parse_runner_config cfg (job_labels j) of
        Inl err \<Rightarrow> s
      | Inr rc \<Rightarrow>
          (let runner_name = ''runner-'' @ str_int (job_id j) @ ''-'' @ take 8 (uuid4_hex e 0);
               scale_set_name = ''scaleset-'' @ str_int (job_id j) @ ''-'' @ take 8 (uuid4_hex e 1)
           in case get_or_create_scale_set e org scale_set_name s of
                (scale_set_id, s1) \<Rightarrow>
                  (case scale_set_id of
                     None \<Rightarrow> s1
                   | Some sid \<Rightarrow>
                       if sid = [] then s1
                       else
                         (let s2 = s1\<lparr>jp_calls := jp_calls s1 @ [GetRegistrationToken org]\<rparr> in
                          case get_registration_token e org of
                            None \<Rightarrow> s2
                          | Some registration_token \<Rightarrow>
                              if registration_token = [] then s2
                              else
                                (let ic = \<lparr>ic_instance_type = instance_type rc,
                                           ic_ami_id = ami_id rc, ic_max_price = max_price rc,
                                           ic_owner = None, ic_repo = None,
                                           ic_registration_token = registration_token,
                                           ic_labels = labels rc, ic_github_token = None\<rparr>;
                                     s3 = s2\<lparr>jp_calls :=
                                               jp_calls s2 @ [CreateSpotInstance runner_name ic]\<rparr>;
                                     s4 = s3\<lparr>jp_calls := jp_calls s3 @ [DeleteScaleSet org sid]\<rparr>
                                 in case create_spot_instance e runner_name ic of
                                      Inl err \<Rightarrow> s3
                                    | Inr None \<Rightarrow> s4
                                    | Inr (Some instance_id) \<Rightarrow>
                                        if instance_id = [] then s4
                                        else
                                          s3\<lparr>jp_active_runners :=
                                               AList.update runner_name
                                                 \<lparr>jp_job_id = job_id j,
                                                  jp_instance_id = instance_id,
                                                  jp_scale_set_id = sid,
                                                  jp_scale_set_name = scale_set_name,
                                                  jp_repository = job_repository j,
                                                  jp_created_at = now e,
                                                  jp_status = ''starting'',
                                                  jp_config = rc\<rparr>
                                                 (jp_active_runners s3)\<rparr>)))))"

text \<open>
  \<open>JobPoller._cleanup_runner\<close> has no \<open>return\<close> value on any path. An exception
  from \<open>terminate_instance\<close> reaches its handler before the group and the record are
  touched.
\<close>

definition poller_cleanup_runner ::
  "Config \<Rightarrow> env \<Rightarrow> string \<Rightarrow> jp_state \<Rightarrow> py_value \<times> jp_state" where
  "poller_cleanup_runner cfg e runner_name s =
     (case map_of (jp_active_runners s) runner_name of
        None \<Rightarrow> (PyNone, s)
      | Some runner_info \<Rightarrow>
          (let instance_id = jp_instance_id runner_info;
               scale_set_id = jp_scale_set_id runner_info;
               scale_set_name = jp_scale_set_name runner_info
           in case terminate_instance e instance_id (jp_calls s) of
                (Inl err, c1) \<Rightarrow> (PyNone, s\<lparr>jp_calls := c1\<rparr>)
              | (Inr ok, c1) \<Rightarrow>
                  (let org = github_org cfg;
                       c2 = (if scale_set_id \<noteq> [] \<and> org \<noteq> []
                             then c1 @ [DeleteScaleSet org scale_set_id] else c1);
                       cache = (if scale_set_id \<noteq> []
                                then AList.delete scale_set_name (scale_sets s)
                                else scale_sets s)
                   in (PyNone,
                       s\<lparr>jp_active_runners := AList.delete runner_name (jp_active_runners s),
                         scale_sets := cache, jp_calls := c2\<rparr>))))"


section \<open>The HTTP surface (webhook_server.py, main.py)\<close>

datatype body = Message string | Error string | ErrorOf py_error | CleanedInstances int

type_synonym response = "body \<times> nat"

text \<open>
  A request to \<open>/webhook\<close>: the raw body, the two headers, and what \<open>get_json\<close> makes of
  the body (\<open>None\<close> for a body that does not parse or parses to an empty object).
\<close>

record request =
  data :: string
  header_signature :: "string option"
  header_event :: "string option"
  get_json :: "payload option"

text \<open>
  Reading \<open>self.config.github_webhook_secret\<close>. \<open>Config\<close> is a pydantic model and
  declares no such field, so the attribute access raises \<open>AttributeError\<close>.
\<close>

definition getattr_github_webhook_secret :: "Config \<Rightarrow> py_error + string" where
  "getattr_github_webhook_secret cfg = Inl AttributeError"

text \<open>
  \<open>WebhookServer._verify_signature\<close>. The keyed hash of the standard library is a
  parameter: \<open>hmac_hex secret msg\<close> stands for
  \<open>hmac.new(secret, msg, sha256).hexdigest()\<close>. The attribute is read in the guard,
  outside the \<open>try\<close> block.
\<close>

definition verify_signature ::
  "(string \<Rightarrow> string \<Rightarrow> string) \<Rightarrow> Config \<Rightarrow> string \<Rightarrow> string option \<Rightarrow> py_error + bool" where
  "verify_signature hmac_hex cfg payload_body signature_header =
     (case signature_header of
        None \<Rightarrow> Inr False
      | Some hdr \<Rightarrow>
          if hdr = [] then Inr False
          else
            (case getattr_github_webhook_secret cfg of
               Inl err \<Rightarrow> Inl err
             | Inr secret \<Rightarrow>
                 if secret = [] then Inr False
                 else Inr (''sha256='' @ hmac_hex secret payload_body = hdr)))"

definition handle_workflow_job_event ::
  "Config \<Rightarrow> env \<Rightarrow> payload \<Rightarrow> string option \<Rightarrow> rm_state \<Rightarrow> response \<times> rm_state" where
  "handle_workflow_job_event cfg e p act s =
     (if act = Some ''queued'' then
        (case handle_workflow_job_queued cfg e p s of
           (success, s') \<Rightarrow>
             if success then ((Message ''Runner creation initiated'', 200), s')
             else ((Message ''Runner creation not needed or failed'', 200), s'))
      else if act = Some ''completed'' \<or> act = Some ''cancelled'' then
        (case handle_workflow_job_completed e p s of
           (success, s') \<Rightarrow> ((Message ''Job completion handled'', 200), s'))
      else
        ((Message (''Action '' @ (case act of None \<Rightarrow> ''None'' | Some a \<Rightarrow> a) @ '' ignored''), 200),
         s))"

definition handle_webhook ::
  "(string \<Rightarrow> string \<Rightarrow> string) \<Rightarrow> Config \<Rightarrow> env \<Rightarrow> request \<Rightarrow> rm_state \<Rightarrow> response \<times> rm_state" where
  "handle_webhook hmac_hex cfg e req s =
     (case verify_signature hmac_hex cfg (data req) (header_signature req) of
        Inl err \<Rightarrow> ((Error ''Internal server error'', 500), s)
      | Inr ok \<Rightarrow>
          if \<not> ok then ((Error ''Invalid signature'', 401), s)
          else
            (case get_json req of
               None \<Rightarrow> ((Error ''Invalid JSON payload'', 400), s)
             | Some p \<Rightarrow>
                 if header_event req = Some ''workflow_job'' then
                   handle_workflow_job_event cfg e p (action p) s
                 else ((Message ''Event ignored'', 200), s)))"

text \<open>
  The \<open>/cleanup\<close> route of the webhook server and the one of \<open>create_api_server\<close>: both
  call \<open>aws.cleanup_old_instances(max_age_hours=0)\<close> and answer an exception with
  \<open>{'error': str(e)}\<close> and status 500 (\<open>ErrorOf\<close>).
\<close>

definition manual_cleanup :: "env \<Rightarrow> rm_state \<Rightarrow> response \<times> rm_state" where
  "manual_cleanup e s =
     (case cleanup_old_instances e 0 (rm_calls s) of
        (Inl err, calls') \<Rightarrow> ((ErrorOf err, 500), s\<lparr>rm_calls := calls'\<rparr>)
      | (Inr cleaned, calls') \<Rightarrow> ((CleanedInstances cleaned, 200), s\<lparr>rm_calls := calls'\<rparr>))"

definition poller_manual_cleanup :: "env \<Rightarrow> jp_state \<Rightarrow> response \<times> jp_state" where
  "poller_manual_cleanup e s =
     (case cleanup_old_instances e 0 (jp_calls s) of
        (Inl err, calls') \<Rightarrow> ((ErrorOf err, 500), s\<lparr>jp_calls := calls'\<rparr>)
      | (Inr cleaned, calls') \<Rightarrow> ((CleanedInstances cleaned, 200), s\<lparr>jp_calls := calls'\<rparr>))"

section \<open>Vocabulary of the statements\<close>

text \<open>The instances for which a termination request was issued, in order.\<close>

fun terminated :: "call list \<Rightarrow> string list" where
  "terminated [] = []"
| "terminated (TerminateInstances i # cs) = i # terminated cs"
| "terminated (c # cs) = terminated cs"

text \<open>The groups for which a deletion request was issued, in order.\<close>

fun deleted_scale_sets :: "call list \<Rightarrow> string list" where
  "deleted_scale_sets [] = []"
| "deleted_scale_sets (DeleteScaleSet org sid # cs) = sid # deleted_scale_sets cs"
| "deleted_scale_sets (c # cs) = deleted_scale_sets cs"







section \<open>Concrete inputs\<close>

definition example_config :: Config where
  "example_config =
     \<lparr>github_token = ''ghp_token'', github_org = ''acme'',
      default_instance_type = ''t3.medium'', default_ami_id = ''ami-0c02fb55956c7d316'',
      runner_labels = [''self-hosted'', ''linux'', ''x64''], runner_idle_timeout = 300\<rparr>"

text \<open>A world in which every request succeeds; the two arguments are the identifiers drawn.\<close>

definition example_env :: "string \<Rightarrow> string \<Rightarrow> env" where
  "example_env u0 u1 =
     \<lparr>uuid4_hex = (\<lambda>k. if k = 0 then u0 else u1),
      now = 1000,
      float_age_hours = (\<lambda>current_time launch_time. (current_time - launch_time) / 3600),
      get_runner_registration_token = (\<lambda>owner repo. Some ''REG''),
      get_runner_remove_token = (\<lambda>owner repo. Some ''REM''),
      list_runners = (\<lambda>owner repo. []),
      remove_runner = (\<lambda>owner repo rid. True),
      create_spot_instance = (\<lambda>runner_name ic. Inr (Some (''i-'' @ runner_name))),
      ec2_terminate_instances = (\<lambda>i. Returns ()),
      ec2_describe_instances = (\<lambda>filters. Returns []),
      get_registration_token = (\<lambda>org. Some ''ORGREG''),
      list_scale_sets = (\<lambda>org. []),
      create_scale_set = (\<lambda>org name. Some ''7''),
      delete_scale_set = (\<lambda>org sid. True)\<rparr>"

definition uuid_a :: string where
  "uuid_a = ''deadbeef00000000000000000000000a''"

definition uuid_b :: string where
  "uuid_b = ''cafebabe00000000000000000000000b''"

definition queued_42 :: payload where
  "queued_42 =
     \<lparr>action = Some ''queued'', workflow_job_id = Some 42,
      workflow_job_labels = [''runs-on=42'', ''cpu=4'', ''image=ami-x''],
      repository_html_url = ''https://github.com/acme/app''\<rparr>"

definition completed_4 :: payload where
  "completed_4 =
     \<lparr>action = Some ''completed'', workflow_job_id = Some 4,
      workflow_job_labels = [''runs-on=4''],
      repository_html_url = ''https://github.com/acme/app''\<rparr>"

definition rm_empty :: rm_state where
  "rm_empty = \<lparr>rm_active_runners = [], rm_calls = []\<rparr>"

definition jp_empty :: jp_state where
  "jp_empty = \<lparr>jp_active_runners = [], scale_sets = [], jp_calls = []\<rparr>"

definition job_42 :: job where
  "job_42 = \<lparr>job_id = 42, job_labels = [''runs-on=42'', ''cpu=4''], job_repository = ''acme/app''\<rparr>"


text \<open>A registry of the notification path that tracks one runner, created for job 42.\<close>

definition config_42 :: runner_config where
  "config_42 =
     \<lparr>instance_type = ''t3.xlarge'', ami_id = ''ami-x'',
      labels = [''self-hosted'', ''linux'', ''x64''], max_price = ''0.10'',
      run_id = Some ''42'', memory = None, work_folder = None\<rparr>"

definition rm_tracking_42 :: rm_state where
  "rm_tracking_42 =
     \<lparr>rm_active_runners =
        [(''runner-42-deadbeef'',
          \<lparr>rm_instance_id = ''i-0abc'', rm_owner = ''acme'', rm_repo = ''app'',
           rm_created_at = 900, rm_status = ''starting'', rm_config = config_42\<rparr>)],
      rm_calls = []\<rparr>"

text \<open>The same for the polling path, with the group created for the job.\<close>

definition jp_tracking_42 :: jp_state where
  "jp_tracking_42 =
     \<lparr>jp_active_runners =
        [(''runner-42-deadbeef'',
          \<lparr>jp_job_id = 42, jp_instance_id = ''i-0abc'', jp_scale_set_id = ''7'',
           jp_scale_set_name = ''scaleset-42-cafebabe'', jp_repository = ''acme/app'',
           jp_created_at = 900, jp_status = ''starting'', jp_config = config_42\<rparr>)],
      scale_sets = [(''scaleset-42-cafebabe'', ''7'')],
      jp_calls = []\<rparr>"

text \<open>A provider that lists the tracked instance, launched before the present.\<close>

definition env_listing_42 :: env where
  "env_listing_42 =
     (example_env uuid_a uuid_b)
       \<lparr>ec2_describe_instances :=
          (\<lambda>filters.
             Returns [[\<lparr>InstanceId = ''i-0abc'',
                        Tags = [(''Type'', ''github-actions-runner''),
                                (''RunnerName'', ''runner-42-deadbeef'')],
                        StateName = ''running'', LaunchTime = 900,
                        InstanceType = ''t3.xlarge''\<rparr>]])\<rparr>"

text \<open>A CI provider that refuses the registration credential.\<close>

definition env_no_token :: env where
  "env_no_token = (example_env uuid_a uuid_b)\<lparr>get_registration_token := (\<lambda>org. None)\<rparr>"


text \<open>A cloud provider that does not fulfil the instance request.\<close>

definition env_no_instance :: env where
  "env_no_instance =
     (example_env uuid_a uuid_b)\<lparr>create_spot_instance := (\<lambda>runner_name ic. Inr None)\<rparr>"

text \<open>A cloud provider that cannot be reached when a termination is requested.\<close>

definition env_terminate_raises :: env where
  "env_terminate_raises =
     (example_env uuid_a uuid_b)\<lparr>ec2_terminate_instances := (\<lambda>i. Raises)\<rparr>"


section \<open>The capacity table\<close>

lemma sorted_cpu_map: "sort_key fst cpu_map = cpu_map"
  by code_simp

lemma first_fit_cpu_map:
  "first_fit n cpu_map =
     (if n \<le> 1 then Some ''t3.micro'' else if n \<le> 2 then Some ''t3.medium''
      else if n \<le> 4 then Some ''t3.xlarge'' else if n \<le> 8 then Some ''t3.2xlarge''
      else if n \<le> 16 then Some ''m5.4xlarge'' else if n \<le> 32 then Some ''m5.8xlarge''
      else if n \<le> 64 then Some ''m5.16xlarge'' else None)"
  by (simp add: cpu_map_def)

lemma first_fit_least:
  "first_fit n xs = Some ty \<Longrightarrow> sorted (map fst xs) \<Longrightarrow>
     \<exists>c. (c, ty) \<in> set xs \<and> n \<le> c \<and> (\<forall>(c', t') \<in> set xs. n \<le> c' \<longrightarrow> c \<le> c')"
proof (induction xs)
  case Nil
  then show ?case by simp
next
  case (Cons p xs)
  obtain c t where p: "p = (c, t)" by (cases p)
  show ?case
  proof (cases "n \<le> c")
    case True
    with Cons.prems p have "ty = t" by simp
    moreover from Cons.prems(2) p have "\<forall>(c', t') \<in> set xs. c \<le> c'" by auto
    ultimately show ?thesis using True p by auto
  next
    case False
    with Cons.prems p have "first_fit n xs = Some ty" "sorted (map fst xs)" by simp_all
    then obtain d where "(d, ty) \<in> set xs" "n \<le> d"
      "\<forall>(c', t') \<in> set xs. n \<le> c' \<longrightarrow> d \<le> c'"
      using Cons.IH by blast
    with False p show ?thesis by auto
  qed
qed

lemma first_fit_none: "first_fit n xs = None \<Longrightarrow> \<forall>(c, t) \<in> set xs. c < n"
  by (induction xs) (auto split: if_splits)

lemma first_fit_some: "first_fit n xs = Some ty \<Longrightarrow> \<exists>c. (c, ty) \<in> set xs \<and> n \<le> c"
  by (induction xs) (auto split: if_splits)

text \<open>
  C6. For every count \<open>n\<close> (positive or not), if some tier of the table has capacity at
  least \<open>n\<close> then the resolver returns the class of the least such capacity; if every
  tier is smaller than \<open>n\<close> it returns the class of the largest capacity. A count of 5
  resolves to the class of the 8-cpu tier and a count of 1000 to the largest class.
\<close>

theorem cpu_resolver_smallest_fit:
  "((\<exists>(c, t) \<in> set cpu_map. n \<le> c) \<longrightarrow>
      (\<exists>c. (c, cpu_to_instance_type n) \<in> set cpu_map \<and> n \<le> c
          \<and> (\<forall>(c', t') \<in> set cpu_map. n \<le> c' \<longrightarrow> c \<le> c')))
   \<and> ((\<forall>(c, t) \<in> set cpu_map. c < n) \<longrightarrow>
      (\<exists>c. (c, cpu_to_instance_type n) \<in> set cpu_map \<and> (\<forall>(c', t') \<in> set cpu_map. c' \<le> c)))
   \<and> cpu_to_instance_type 5 = ''t3.2xlarge''
   \<and> (8, ''t3.2xlarge'') \<in> set cpu_map
   \<and> cpu_to_instance_type 1000 = ''m5.16xlarge''"
proof (intro conjI impI)
  assume ex: "\<exists>(c, t) \<in> set cpu_map. n \<le> c"
  have "first_fit n cpu_map \<noteq> None"
    using ex first_fit_none [of n cpu_map] by fastforce
  then obtain ty where ty: "first_fit n cpu_map = Some ty" by blast
  have "sorted (map fst cpu_map)" by (simp add: cpu_map_def)
  with ty have "\<exists>c. (c, ty) \<in> set cpu_map \<and> n \<le> c
      \<and> (\<forall>(c', t') \<in> set cpu_map. n \<le> c' \<longrightarrow> c \<le> c')"
    by (rule first_fit_least)
  moreover have "cpu_to_instance_type n = ty"
    using ty by (simp add: cpu_to_instance_type_def sorted_cpu_map)
  ultimately show "\<exists>c. (c, cpu_to_instance_type n) \<in> set cpu_map \<and> n \<le> c
          \<and> (\<forall>(c', t') \<in> set cpu_map. n \<le> c' \<longrightarrow> c \<le> c')" by simp
next
  assume all: "\<forall>(c, t) \<in> set cpu_map. c < n"
  have "first_fit n cpu_map = None"
  proof (cases "first_fit n cpu_map")
    case None
    then show ?thesis .
  next
    case (Some ty)
    then obtain c where "(c, ty) \<in> set cpu_map" "n \<le> c"
      using first_fit_some by blast
    with all show ?thesis by fastforce
  qed
  then have "cpu_to_instance_type n = ''m5.16xlarge''"
    by (simp add: cpu_to_instance_type_def sorted_cpu_map)
  moreover have "(64, ''m5.16xlarge'') \<in> set cpu_map \<and> (\<forall>(c', t') \<in> set cpu_map. c' \<le> 64)"
    by (simp add: cpu_map_def)
  ultimately show "\<exists>c. (c, cpu_to_instance_type n) \<in> set cpu_map
      \<and> (\<forall>(c', t') \<in> set cpu_map. c' \<le> c)"
    by auto
next
  show "cpu_to_instance_type 5 = ''t3.2xlarge''"
    by (simp add: cpu_to_instance_type_def sorted_cpu_map first_fit_cpu_map)
next
  show "(8, ''t3.2xlarge'') \<in> set cpu_map" by (simp add: cpu_map_def)
next
  show "cpu_to_instance_type 1000 = ''m5.16xlarge''"
    by (simp add: cpu_to_instance_type_def sorted_cpu_map first_fit_cpu_map)
qed

theorem cpu_resolver_smallest_fit_witness:
  "list_ex (\<lambda>(c, t). 5 \<le> c) cpu_map
   \<and> (\<exists>c. (c, cpu_to_instance_type 5) \<in> set cpu_map \<and> 5 \<le> c \<and> c \<le> 8)
   \<and> list_all (\<lambda>(c, t). c < 1000) cpu_map
   \<and> (\<exists>c. (c, cpu_to_instance_type 1000) \<in> set cpu_map \<and> 64 \<le> c)"
proof -
  have h5: "\<exists>(c, t) \<in> set cpu_map. 5 \<le> c" by (simp add: cpu_map_def)
  have h1000: "\<forall>(c, t) \<in> set cpu_map. c < 1000" by (simp add: cpu_map_def)
  have m8: "(8, ''t3.2xlarge'') \<in> set cpu_map" and m64: "(64, ''m5.16xlarge'') \<in> set cpu_map"
    by (simp_all add: cpu_map_def)
  from h5 cpu_resolver_smallest_fit [of 5]
  obtain c where c: "(c, cpu_to_instance_type 5) \<in> set cpu_map" "5 \<le> c"
    "\<forall>(c', t') \<in> set cpu_map. 5 \<le> c' \<longrightarrow> c \<le> c'"
    by blast
  from c(3) m8 have "c \<le> 8" by fastforce
  with c have a: "\<exists>c. (c, cpu_to_instance_type 5) \<in> set cpu_map \<and> 5 \<le> c \<and> c \<le> 8"
    by blast
  from h1000 cpu_resolver_smallest_fit [of 1000]
  obtain d where d: "(d, cpu_to_instance_type 1000) \<in> set cpu_map"
    "\<forall>(c', t') \<in> set cpu_map. c' \<le> d"
    by blast
  from d(2) m64 have "64 \<le> d" by fastforce
  with d have b: "\<exists>c. (c, cpu_to_instance_type 1000) \<in> set cpu_map \<and> 64 \<le> c"
    by blast
  have "list_ex (\<lambda>(c, t). 5 \<le> c) cpu_map" "list_all (\<lambda>(c, t). c < 1000) cpu_map"
    by (simp_all add: cpu_map_def)
  with a b show ?thesis by simp
qed


section \<open>The label parsers\<close>


lemma split_on_absent: "c \<notin> set s \<Longrightarrow> split_on c s = [s]"
  by (induction s) auto















































section \<open>Provisioning\<close>

text \<open>
  C1 fails on the notification path. The same queued notification for job 42 is handled
  twice, the second time after the first has returned, in a world where every request
  succeeds: both deliveries report success, and the registry then holds two records for
  the job, each with an instance of its own.
\<close>

theorem queued_redelivery_adds_second_runner:
  "(let (r1, s1) = handle_workflow_job_queued example_config (example_env uuid_a uuid_b)
                     queued_42 rm_empty;
        (r2, s2) = handle_workflow_job_queued example_config (example_env uuid_b uuid_a)
                     queued_42 s1
    in r1 \<and> r2
       \<and> map fst (rm_active_runners s1) = [''runner-42-deadbeef'']
       \<and> map fst (rm_active_runners s2) = [''runner-42-deadbeef'', ''runner-42-cafebabe'']
       \<and> list_all (\<lambda>(name, info). sublist ''runner-42'' name \<and> rm_status info = ''starting'')
            (rm_active_runners s2)
       \<and> map (rm_instance_id \<circ> snd) (rm_active_runners s2)
            = [''i-runner-42-deadbeef'', ''i-runner-42-cafebabe''])"
  by code_simp

text \<open>The polling path has the test that the notification path lacks.\<close>

lemma poller_skips_tracked_job:
  "(name, info) \<in> set (jp_active_runners s) \<Longrightarrow> jp_job_id info = job_id j \<Longrightarrow>
     \<not> should_create_runner_for_job j s"
  by (auto simp: should_create_runner_for_job_def list_ex_iff)

lemma poller_skips_job_42:
  "should_create_runner_for_job job_42 jp_empty
   \<and> \<not> should_create_runner_for_job job_42
         (create_runner_for_job example_config (example_env uuid_a uuid_b) ''acme'' job_42 jp_empty)"
  by code_simp

text \<open>
  C2 fails when the registration credential is refused. The group is created (no group
  exists and none is cached), the credential request fails, and the routine returns: no
  deletion is requested and the group stays in the cache. The registry has no record.
\<close>

theorem token_failure_keeps_created_scale_set:
  "(let s' = create_runner_for_job example_config env_no_token ''acme'' job_42 jp_empty
    in jp_calls s' = [ListScaleSets ''acme'', CreateScaleSet ''acme'' ''scaleset-42-cafebabe'',
                      GetRegistrationToken ''acme'']
       \<and> deleted_scale_sets (jp_calls s') = []
       \<and> scale_sets s' = [(''scaleset-42-cafebabe'', ''7'')]
       \<and> jp_active_runners s' = [])"
  by code_simp

text \<open>The sibling branch, a failed instance request, does ask for the deletion.\<close>

lemma instance_failure_deletes_scale_set:
  "(let s' = create_runner_for_job example_config env_no_instance ''acme'' job_42 jp_empty
    in deleted_scale_sets (jp_calls s') = [''7''] \<and> jp_active_runners s' = [])"
  by code_simp

text \<open>What the two provisioning routines do to the registry.\<close>

lemma set_update_subset: "set (AList.update k v al) \<subseteq> insert (k, v) (set al)"
  by (induction al) auto

lemma in_update_cases:
  "(n, i) \<in> set (AList.update k v al) \<Longrightarrow> (n = k \<and> i = v) \<or> (n, i) \<in> set al"
  using set_update_subset [of k v al] by auto

lemma create_runner_provisioned:
  assumes "get_runner_registration_token e owner repo = Some tok" "tok \<noteq> []"
    and "create_spot_instance e runner_name
           \<lparr>ic_instance_type = instance_type rc, ic_ami_id = ami_id rc,
            ic_max_price = max_price rc, ic_owner = Some owner, ic_repo = Some repo,
            ic_registration_token = tok, ic_labels = labels rc,
            ic_github_token = Some (github_token cfg)\<rparr> = Inr (Some iid)"
    and "iid \<noteq> []"
  shows "fst (create_runner cfg e runner_name owner repo rc s)"
    and "rm_active_runners (snd (create_runner cfg e runner_name owner repo rc s))
           = AList.update runner_name
               \<lparr>rm_instance_id = iid, rm_owner = owner, rm_repo = repo,
                rm_created_at = now e, rm_status = ''starting'', rm_config = rc\<rparr>
               (rm_active_runners s)"
  using assms by (simp_all add: create_runner_def Let_def)

lemma create_runner_failed:
  "\<not> fst (create_runner cfg e runner_name owner repo rc s) \<Longrightarrow>
     rm_active_runners (snd (create_runner cfg e runner_name owner repo rc s))
       = rm_active_runners s"
  by (auto simp: create_runner_def Let_def split: option.splits if_splits sum.splits)

lemma create_runner_registry:
  assumes "(name, info) \<in> set (rm_active_runners (snd (create_runner cfg e rn owner repo rc s)))"
  shows "(name, info) \<in> set (rm_active_runners s) \<or> rm_status info = ''starting''"
  using assms
  by (auto simp: create_runner_def Let_def split: option.splits if_splits sum.splits
      dest!: in_update_cases)

lemma get_or_create_scale_set_registry:
  "jp_active_runners (snd (get_or_create_scale_set e org n s)) = jp_active_runners s"
  by (simp add: get_or_create_scale_set_def Let_def split: option.splits list.splits)

lemma create_runner_for_job_registry:
  assumes "(name, info) \<in> set (jp_active_runners (create_runner_for_job cfg e org j t))"
  shows "(name, info) \<in> set (jp_active_runners t)
         \<or> (jp_status info = ''starting'' \<and> jp_job_id info = job_id j)"
proof (cases "parse_runner_config cfg (job_labels j)")
  case (Inl err)
  with assms show ?thesis by (simp add: create_runner_for_job_def)
next
  case (Inr rc)
  let ?ssn = "''scaleset-'' @ str_int (job_id j) @ ''-'' @ take 8 (uuid4_hex e 1)"
  obtain sid s1 where g: "get_or_create_scale_set e org ?ssn t = (sid, s1)"
    by (cases "get_or_create_scale_set e org ?ssn t")
  then have r: "jp_active_runners s1 = jp_active_runners t"
    using get_or_create_scale_set_registry [of e org ?ssn t] by simp
  show ?thesis
    using assms Inr g r
    by (auto simp: create_runner_for_job_def Let_def
        split: option.splits if_splits sum.splits dest!: in_update_cases)
qed

lemma create_runner_for_job_provisioned:
  assumes "parse_runner_config cfg (job_labels j) = Inr rc"
    and "get_or_create_scale_set e org
           (''scaleset-'' @ str_int (job_id j) @ ''-'' @ take 8 (uuid4_hex e 1)) t
           = (Some sid, t1)"
    and "sid \<noteq> []"
    and "get_registration_token e org = Some tok" "tok \<noteq> []"
    and "create_spot_instance e
           (''runner-'' @ str_int (job_id j) @ ''-'' @ take 8 (uuid4_hex e 0))
           \<lparr>ic_instance_type = instance_type rc, ic_ami_id = ami_id rc,
            ic_max_price = max_price rc, ic_owner = None, ic_repo = None,
            ic_registration_token = tok, ic_labels = labels rc,
            ic_github_token = None\<rparr> = Inr (Some iid)"
    and "iid \<noteq> []"
  shows "jp_active_runners (create_runner_for_job cfg e org j t)
           = AList.update (''runner-'' @ str_int (job_id j) @ ''-'' @ take 8 (uuid4_hex e 0))
               \<lparr>jp_job_id = job_id j, jp_instance_id = iid, jp_scale_set_id = sid,
                jp_scale_set_name =
                  ''scaleset-'' @ str_int (job_id j) @ ''-'' @ take 8 (uuid4_hex e 1),
                jp_repository = job_repository j, jp_created_at = now e,
                jp_status = ''starting'', jp_config = rc\<rparr>
               (jp_active_runners t)"
proof -
  have r: "jp_active_runners t1 = jp_active_runners t"
    using get_or_create_scale_set_registry
      [of e org "''scaleset-'' @ str_int (job_id j) @ ''-'' @ take 8 (uuid4_hex e 1)" t]
      assms(2) by simp
  show ?thesis
    using assms r by (simp add: create_runner_for_job_def Let_def del: append.simps)
qed


text \<open>
  C8, as stated, fails: after a queued notification whose provisioning succeeds, and
  after a successful provisioning on the polling path, the record in the registry has
  status \<open>starting\<close>, not \<open>active\<close>.
\<close>

theorem queued_42_record_is_starting:
  "(let (r, s) = handle_workflow_job_queued example_config (example_env uuid_a uuid_b)
                   queued_42 rm_empty
    in r \<and> map (\<lambda>(name, info). (name, rm_status info)) (rm_active_runners s)
             = [(''runner-42-deadbeef'', ''starting'')]
         \<and> ''starting'' \<noteq> ''active'')
   \<and> (let t = create_runner_for_job example_config (example_env uuid_a uuid_b) ''acme'' job_42
                jp_empty
      in map (\<lambda>(name, info). (name, jp_status info)) (jp_active_runners t)
             = [(''runner-42-deadbeef'', ''starting'')])"
  by code_simp

text \<open>
  C8, amended. When provisioning succeeds, that is, the registration credential is
  obtained and the provider returns an instance id (on the polling path after a group
  was obtained), the routine puts under the runner's name a record with status
  \<open>starting\<close> that holds this instance id, and leaves every other record as it was;
  \<open>create_runner\<close> then returns \<open>True\<close>. When \<open>create_runner\<close> returns \<open>False\<close> the
  registry is unchanged. After either routine every record of the registry either was
  there before or has status \<open>starting\<close>.
\<close>

theorem inserted_record_has_status_starting:
  "(get_runner_registration_token e owner repo = Some tok \<and> tok \<noteq> []
      \<and> create_spot_instance e runner_name
           \<lparr>ic_instance_type = instance_type rc, ic_ami_id = ami_id rc,
            ic_max_price = max_price rc, ic_owner = Some owner, ic_repo = Some repo,
            ic_registration_token = tok, ic_labels = labels rc,
            ic_github_token = Some (github_token cfg)\<rparr> = Inr (Some iid)
      \<and> iid \<noteq> [] \<longrightarrow>
        fst (create_runner cfg e runner_name owner repo rc s)
        \<and> rm_active_runners (snd (create_runner cfg e runner_name owner repo rc s))
            = AList.update runner_name
                \<lparr>rm_instance_id = iid, rm_owner = owner, rm_repo = repo,
                 rm_created_at = now e, rm_status = ''starting'', rm_config = rc\<rparr>
                (rm_active_runners s))
   \<and> (\<not> fst (create_runner cfg e runner_name owner repo rc s) \<longrightarrow>
        rm_active_runners (snd (create_runner cfg e runner_name owner repo rc s))
          = rm_active_runners s)
   \<and> list_all (\<lambda>(name, info). rm_status info = ''starting''
                  \<or> (name, info) \<in> set (rm_active_runners s))
        (rm_active_runners (snd (create_runner cfg e runner_name owner repo rc s)))
   \<and> (parse_runner_config cfg (job_labels j) = Inr rc'
      \<and> get_or_create_scale_set e org
           (''scaleset-'' @ str_int (job_id j) @ ''-'' @ take 8 (uuid4_hex e 1)) t
           = (Some sid, t1)
      \<and> sid \<noteq> []
      \<and> get_registration_token e org = Some tok' \<and> tok' \<noteq> []
      \<and> create_spot_instance e
           (''runner-'' @ str_int (job_id j) @ ''-'' @ take 8 (uuid4_hex e 0))
           \<lparr>ic_instance_type = instance_type rc', ic_ami_id = ami_id rc',
            ic_max_price = max_price rc', ic_owner = None, ic_repo = None,
            ic_registration_token = tok', ic_labels = labels rc',
            ic_github_token = None\<rparr> = Inr (Some iid')
      \<and> iid' \<noteq> [] \<longrightarrow>
        jp_active_runners (create_runner_for_job cfg e org j t)
          = AList.update (''runner-'' @ str_int (job_id j) @ ''-'' @ take 8 (uuid4_hex e 0))
              \<lparr>jp_job_id = job_id j, jp_instance_id = iid', jp_scale_set_id = sid,
               jp_scale_set_name =
                 ''scaleset-'' @ str_int (job_id j) @ ''-'' @ take 8 (uuid4_hex e 1),
               jp_repository = job_repository j, jp_created_at = now e,
               jp_status = ''starting'', jp_config = rc'\<rparr>
              (jp_active_runners t))
   \<and> list_all (\<lambda>(name, info). jp_status info = ''starting''
                  \<or> (name, info) \<in> set (jp_active_runners t))
        (jp_active_runners (create_runner_for_job cfg e org j t))"
proof (intro conjI impI)
  assume a: "get_runner_registration_token e owner repo = Some tok \<and> tok \<noteq> []
      \<and> create_spot_instance e runner_name
           \<lparr>ic_instance_type = instance_type rc, ic_ami_id = ami_id rc,
            ic_max_price = max_price rc, ic_owner = Some owner, ic_repo = Some repo,
            ic_registration_token = tok, ic_labels = labels rc,
            ic_github_token = Some (github_token cfg)\<rparr> = Inr (Some iid)
      \<and> iid \<noteq> []"
  then show "fst (create_runner cfg e runner_name owner repo rc s)"
    using create_runner_provisioned(1) [of e owner repo tok runner_name rc cfg iid s] by blast
  from a show "rm_active_runners (snd (create_runner cfg e runner_name owner repo rc s))
            = AList.update runner_name
                \<lparr>rm_instance_id = iid, rm_owner = owner, rm_repo = repo,
                 rm_created_at = now e, rm_status = ''starting'', rm_config = rc\<rparr>
                (rm_active_runners s)"
    using create_runner_provisioned(2) [of e owner repo tok runner_name rc cfg iid s] by blast
next
  assume "\<not> fst (create_runner cfg e runner_name owner repo rc s)"
  then show "rm_active_runners (snd (create_runner cfg e runner_name owner repo rc s))
          = rm_active_runners s"
    by (rule create_runner_failed)
next
  show "list_all (\<lambda>(name, info). rm_status info = ''starting''
                  \<or> (name, info) \<in> set (rm_active_runners s))
        (rm_active_runners (snd (create_runner cfg e runner_name owner repo rc s)))"
    using create_runner_registry [of _ _ cfg e runner_name owner repo rc s]
    by (auto simp: list_all_iff)
next
  assume "parse_runner_config cfg (job_labels j) = Inr rc'
      \<and> get_or_create_scale_set e org
           (''scaleset-'' @ str_int (job_id j) @ ''-'' @ take 8 (uuid4_hex e 1)) t
           = (Some sid, t1)
      \<and> sid \<noteq> []
      \<and> get_registration_token e org = Some tok' \<and> tok' \<noteq> []
      \<and> create_spot_instance e
           (''runner-'' @ str_int (job_id j) @ ''-'' @ take 8 (uuid4_hex e 0))
           \<lparr>ic_instance_type = instance_type rc', ic_ami_id = ami_id rc',
            ic_max_price = max_price rc', ic_owner = None, ic_repo = None,
            ic_registration_token = tok', ic_labels = labels rc',
            ic_github_token = None\<rparr> = Inr (Some iid')
      \<and> iid' \<noteq> []"
  then show "jp_active_runners (create_runner_for_job cfg e org j t)
          = AList.update (''runner-'' @ str_int (job_id j) @ ''-'' @ take 8 (uuid4_hex e 0))
              \<lparr>jp_job_id = job_id j, jp_instance_id = iid', jp_scale_set_id = sid,
               jp_scale_set_name =
                 ''scaleset-'' @ str_int (job_id j) @ ''-'' @ take 8 (uuid4_hex e 1),
               jp_repository = job_repository j, jp_created_at = now e,
               jp_status = ''starting'', jp_config = rc'\<rparr>
              (jp_active_runners t)"
    using create_runner_for_job_provisioned [of cfg j rc' e org t sid t1 tok' iid'] by blast
next
  show "list_all (\<lambda>(name, info). jp_status info = ''starting''
                  \<or> (name, info) \<in> set (jp_active_runners t))
        (jp_active_runners (create_runner_for_job cfg e org j t))"
    using create_runner_for_job_registry [of _ _ cfg e org j t]
    by (auto simp: list_all_iff)
qed

theorem inserted_record_has_status_starting_witness:
  "get_runner_registration_token (example_env uuid_a uuid_b) ''acme'' ''app'' = Some ''REG''
   \<and> create_spot_instance (example_env uuid_a uuid_b) ''runner-42-deadbeef''
        \<lparr>ic_instance_type = instance_type config_42, ic_ami_id = ami_id config_42,
         ic_max_price = max_price config_42, ic_owner = Some ''acme'', ic_repo = Some ''app'',
         ic_registration_token = ''REG'', ic_labels = labels config_42,
         ic_github_token = Some (github_token example_config)\<rparr>
       = Inr (Some ''i-runner-42-deadbeef'')
   \<and> fst (create_runner example_config (example_env uuid_a uuid_b) ''runner-42-deadbeef''
          ''acme'' ''app'' config_42 rm_tracking_42)
   \<and> rm_active_runners (snd (create_runner example_config (example_env uuid_a uuid_b)
          ''runner-42-deadbeef'' ''acme'' ''app'' config_42 rm_tracking_42))
       = [(''runner-42-deadbeef'',
           \<lparr>rm_instance_id = ''i-runner-42-deadbeef'', rm_owner = ''acme'', rm_repo = ''app'',
            rm_created_at = 1000, rm_status = ''starting'', rm_config = config_42\<rparr>)]
   \<and> \<not> fst (create_runner example_config env_no_instance ''runner-43-deadbeef''
            ''acme'' ''app'' config_42 rm_tracking_42)
   \<and> rm_active_runners (snd (create_runner example_config env_no_instance
          ''runner-43-deadbeef'' ''acme'' ''app'' config_42 rm_tracking_42))
       = rm_active_runners rm_tracking_42
   \<and> map (\<lambda>(name, info). (name, jp_instance_id info, jp_status info))
        (jp_active_runners (create_runner_for_job example_config (example_env uuid_a uuid_b)
           ''acme'' job_42 jp_empty))
       = [(''runner-42-deadbeef'', ''i-runner-42-deadbeef'', ''starting'')]"
proof -
  let ?e = "example_env uuid_a uuid_b"
  note T = inserted_record_has_status_starting
  have h1: "get_runner_registration_token ?e ''acme'' ''app'' = Some ''REG''"
    by (simp add: example_env_def)
  have h2: "create_spot_instance ?e ''runner-42-deadbeef''
        \<lparr>ic_instance_type = instance_type config_42, ic_ami_id = ami_id config_42,
         ic_max_price = max_price config_42, ic_owner = Some ''acme'', ic_repo = Some ''app'',
         ic_registration_token = ''REG'', ic_labels = labels config_42,
         ic_github_token = Some (github_token example_config)\<rparr>
       = Inr (Some ''i-runner-42-deadbeef'')"
    by (simp add: example_env_def)
  have n: "now ?e = 1000" by (simp add: example_env_def)
  have u: "AList.update ''runner-42-deadbeef''
             \<lparr>rm_instance_id = ''i-runner-42-deadbeef'', rm_owner = ''acme'', rm_repo = ''app'',
              rm_created_at = 1000, rm_status = ''starting'', rm_config = config_42\<rparr>
             (rm_active_runners rm_tracking_42)
           = [(''runner-42-deadbeef'',
               \<lparr>rm_instance_id = ''i-runner-42-deadbeef'', rm_owner = ''acme'',
                rm_repo = ''app'', rm_created_at = 1000, rm_status = ''starting'',
                rm_config = config_42\<rparr>)]"
    by (simp add: rm_tracking_42_def)
  have a: "fst (create_runner example_config ?e ''runner-42-deadbeef''
          ''acme'' ''app'' config_42 rm_tracking_42)
     \<and> rm_active_runners (snd (create_runner example_config ?e
          ''runner-42-deadbeef'' ''acme'' ''app'' config_42 rm_tracking_42))
       = [(''runner-42-deadbeef'',
           \<lparr>rm_instance_id = ''i-runner-42-deadbeef'', rm_owner = ''acme'', rm_repo = ''app'',
            rm_created_at = 1000, rm_status = ''starting'', rm_config = config_42\<rparr>)]"
    using T [where e = ?e and owner = "''acme''" and repo = "''app''" and tok = "''REG''"
        and runner_name = "''runner-42-deadbeef''" and rc = config_42 and cfg = example_config
        and iid = "''i-runner-42-deadbeef''" and s = rm_tracking_42] h1 h2
    by (simp add: n u)
  have f: "\<not> fst (create_runner example_config env_no_instance ''runner-43-deadbeef''
            ''acme'' ''app'' config_42 rm_tracking_42)"
    by code_simp
  have b: "rm_active_runners (snd (create_runner example_config env_no_instance
          ''runner-43-deadbeef'' ''acme'' ''app'' config_42 rm_tracking_42))
       = rm_active_runners rm_tracking_42"
    using T [where e = env_no_instance and owner = "''acme''" and repo = "''app''"
        and runner_name = "''runner-43-deadbeef''" and rc = config_42 and cfg = example_config
        and s = rm_tracking_42] f
    by blast
  have p: "map (\<lambda>(name, info). (name, jp_instance_id info, jp_status info))
        (jp_active_runners (create_runner_for_job example_config ?e ''acme'' job_42 jp_empty))
       = [(''runner-42-deadbeef'', ''i-runner-42-deadbeef'', ''starting'')]"
    by code_simp
  show ?thesis
    using h1 h2 a f b p by blast
qed

section \<open>Cleanup\<close>

text \<open>
  C3 fails on a job id that is a prefix of another. The registry tracks one runner,
  created for job 42. A completion notification for job 4 finds it, because
  \<open>runner-4\<close> occurs in \<open>runner-42-deadbeef\<close>: the handler reports success, the
  instance of job 42 is terminated and its record is removed.
\<close>

theorem completed_4_cleans_runner_of_42:
  "handle_workflow_job_completed (example_env uuid_a uuid_b) completed_4 rm_tracking_42
     = (True, \<lparr>rm_active_runners = [],
               rm_calls = [GetRunnerRemoveToken ''acme'' ''app'', ListRunners ''acme'' ''app'',
                           TerminateInstances ''i-0abc'']\<rparr>)"
  by code_simp

lemma terminated_append: "terminated (xs @ ys) = terminated xs @ terminated ys"
  by (induction xs rule: terminated.induct) simp_all

lemma terminate_instance_calls:
  "snd (terminate_instance e i calls) = calls @ [TerminateInstances i]"
  by (simp add: terminate_instance_def)

lemma terminate_instance_raises:
  "(\<exists>err. fst (terminate_instance e i calls) = Inl err) \<longleftrightarrow> ec2_terminate_instances e i = Raises"
  by (simp add: terminate_instance_def split: outcome.splits)

lemma cleanup_runner_untracked:
  "map_of (rm_active_runners s) name = None \<Longrightarrow> cleanup_runner e name s = (False, s)"
  by (simp add: cleanup_runner_def)

lemma cleanup_runner_terminations:
  "terminated (rm_calls (snd (cleanup_runner e name s)))
     = terminated (rm_calls s)
         @ (case map_of (rm_active_runners s) name of
              None \<Rightarrow> []
            | Some info \<Rightarrow> [rm_instance_id info])"
  by (simp add: cleanup_runner_def Let_def terminate_instance_def terminated_append
      split: option.splits outcome.splits)

lemma cleanup_runner_done:
  assumes "map_of (rm_active_runners s) name = Some info"
    and "ec2_terminate_instances e (rm_instance_id info) \<noteq> Raises"
  shows "fst (cleanup_runner e name s)"
    and "rm_active_runners (snd (cleanup_runner e name s))
           = AList.delete name (rm_active_runners s)"
  using assms
  by (simp_all add: cleanup_runner_def Let_def terminate_instance_def split: outcome.splits)

lemma cleanup_runner_raised:
  assumes "map_of (rm_active_runners s) name = Some info"
    and "ec2_terminate_instances e (rm_instance_id info) = Raises"
  shows "\<not> fst (cleanup_runner e name s)"
    and "rm_active_runners (snd (cleanup_runner e name s)) = rm_active_runners s"
  using assms
  by (simp_all add: cleanup_runner_def Let_def terminate_instance_def)

lemma poller_cleanup_untracked:
  "map_of (jp_active_runners t) name = None \<Longrightarrow>
     poller_cleanup_runner cfg e name t = (PyNone, t)"
  by (simp add: poller_cleanup_runner_def)

lemma poller_cleanup_returns_none: "fst (poller_cleanup_runner cfg e name t) = PyNone"
  by (simp add: poller_cleanup_runner_def Let_def terminate_instance_def
      split: option.splits outcome.splits)

lemma poller_cleanup_terminations:
  "terminated (jp_calls (snd (poller_cleanup_runner cfg e name t)))
     = terminated (jp_calls t)
         @ (case map_of (jp_active_runners t) name of
              None \<Rightarrow> []
            | Some info \<Rightarrow> [jp_instance_id info])"
  by (simp add: poller_cleanup_runner_def Let_def terminate_instance_def terminated_append
      split: option.splits outcome.splits)

lemma poller_cleanup_done:
  assumes "map_of (jp_active_runners t) name = Some info"
    and "ec2_terminate_instances e (jp_instance_id info) \<noteq> Raises"
  shows "jp_active_runners (snd (poller_cleanup_runner cfg e name t))
           = AList.delete name (jp_active_runners t)"
  using assms
  by (simp add: poller_cleanup_runner_def Let_def terminate_instance_def split: outcome.splits)

lemma poller_cleanup_raised:
  assumes "map_of (jp_active_runners t) name = Some info"
    and "ec2_terminate_instances e (jp_instance_id info) = Raises"
  shows "jp_active_runners (snd (poller_cleanup_runner cfg e name t)) = jp_active_runners t"
    and "scale_sets (snd (poller_cleanup_runner cfg e name t)) = scale_sets t"
  using assms
  by (simp_all add: poller_cleanup_runner_def Let_def terminate_instance_def)

text \<open>
  C10, as stated, fails twice. When the termination request raises an exception other
  than \<open>ClientError\<close>, the cleanup routine stops in its handler with the record still
  in the registry, so a second cleanup of the same name requests the termination again.
  And the routine of the polling path returns \<open>None\<close>, not \<open>False\<close>, for a name it
  does not track.
\<close>

theorem failed_termination_is_repeated:
  "(let (r1, s1) = cleanup_runner env_terminate_raises ''runner-42-deadbeef'' rm_tracking_42;
        (r2, s2) = cleanup_runner env_terminate_raises ''runner-42-deadbeef'' s1
    in \<not> r1 \<and> \<not> r2
       \<and> terminated (rm_calls s2) = [''i-0abc'', ''i-0abc'']
       \<and> map fst (rm_active_runners s2) = [''runner-42-deadbeef''])
   \<and> (let (r1, t1) = poller_cleanup_runner example_config env_terminate_raises
                        ''runner-42-deadbeef'' jp_tracking_42;
          (r2, t2) = poller_cleanup_runner example_config env_terminate_raises
                        ''runner-42-deadbeef'' t1
      in terminated (jp_calls t2) = [''i-0abc'', ''i-0abc'']
         \<and> map fst (jp_active_runners t2) = [''runner-42-deadbeef''])
   \<and> fst (poller_cleanup_runner example_config (example_env uuid_a uuid_b)
            ''runner-7-0badcafe'' jp_tracking_42) = PyNone
   \<and> PyNone \<noteq> PyBool False"
  by code_simp

text \<open>
  C10, amended. Cleaning up a name that the registry does not hold leaves the state as
  it was, the list of issued calls included; \<open>RunnerManager.cleanup_runner\<close> returns
  \<open>False\<close> and \<open>JobPoller._cleanup_runner\<close>, which has no return value, \<open>None\<close>. One
  cleanup requests one termination, of the record's instance, for a tracked name and
  none otherwise. If that request returns or raises \<open>ClientError\<close>, the record is
  removed and a second cleanup of the name, whatever the world answers, requests nothing
  more; if it raises another exception, the record stays (\<open>cleanup_runner\<close> returns
  \<open>False\<close>) and a second cleanup requests the termination a second time.
\<close>

theorem cleanup_of_untracked_name_is_noop:
  "(map_of (rm_active_runners s) name = None \<longrightarrow> cleanup_runner e name s = (False, s))
   \<and> (map_of (jp_active_runners t) name = None \<longrightarrow>
        poller_cleanup_runner cfg e name t = (PyNone, t))
   \<and> fst (poller_cleanup_runner cfg e name t) = PyNone
   \<and> terminated (rm_calls (snd (cleanup_runner e name s)))
       = terminated (rm_calls s)
           @ (case map_of (rm_active_runners s) name of
                None \<Rightarrow> []
              | Some info \<Rightarrow> [rm_instance_id info])
   \<and> terminated (jp_calls (snd (poller_cleanup_runner cfg e name t)))
       = terminated (jp_calls t)
           @ (case map_of (jp_active_runners t) name of
                None \<Rightarrow> []
              | Some info \<Rightarrow> [jp_instance_id info])
   \<and> (map_of (rm_active_runners s) name = Some info
        \<and> ec2_terminate_instances e (rm_instance_id info) \<noteq> Raises \<longrightarrow>
          fst (cleanup_runner e name s)
          \<and> rm_active_runners (snd (cleanup_runner e name s))
              = AList.delete name (rm_active_runners s)
          \<and> terminated (rm_calls (snd (cleanup_runner e2 name (snd (cleanup_runner e name s)))))
              = terminated (rm_calls s) @ [rm_instance_id info])
   \<and> (map_of (rm_active_runners s) name = Some info
        \<and> ec2_terminate_instances e (rm_instance_id info) = Raises \<longrightarrow>
          \<not> fst (cleanup_runner e name s)
          \<and> rm_active_runners (snd (cleanup_runner e name s)) = rm_active_runners s
          \<and> terminated (rm_calls (snd (cleanup_runner e2 name (snd (cleanup_runner e name s)))))
              = terminated (rm_calls s) @ [rm_instance_id info, rm_instance_id info])
   \<and> (map_of (jp_active_runners t) name = Some pinfo
        \<and> ec2_terminate_instances e (jp_instance_id pinfo) \<noteq> Raises \<longrightarrow>
          jp_active_runners (snd (poller_cleanup_runner cfg e name t))
              = AList.delete name (jp_active_runners t)
          \<and> terminated (jp_calls (snd (poller_cleanup_runner cfg e2 name
                (snd (poller_cleanup_runner cfg e name t)))))
              = terminated (jp_calls t) @ [jp_instance_id pinfo])
   \<and> (map_of (jp_active_runners t) name = Some pinfo
        \<and> ec2_terminate_instances e (jp_instance_id pinfo) = Raises \<longrightarrow>
          jp_active_runners (snd (poller_cleanup_runner cfg e name t)) = jp_active_runners t
          \<and> terminated (jp_calls (snd (poller_cleanup_runner cfg e2 name
                (snd (poller_cleanup_runner cfg e name t)))))
              = terminated (jp_calls t) @ [jp_instance_id pinfo, jp_instance_id pinfo])"
proof (intro conjI impI)
  assume "map_of (rm_active_runners s) name = None"
  then show "cleanup_runner e name s = (False, s)" by (rule cleanup_runner_untracked)
next
  assume "map_of (jp_active_runners t) name = None"
  then show "poller_cleanup_runner cfg e name t = (PyNone, t)"
    by (rule poller_cleanup_untracked)
next
  show "fst (poller_cleanup_runner cfg e name t) = PyNone"
    by (rule poller_cleanup_returns_none)
next
  show "terminated (rm_calls (snd (cleanup_runner e name s)))
       = terminated (rm_calls s)
           @ (case map_of (rm_active_runners s) name of
                None \<Rightarrow> []
              | Some info \<Rightarrow> [rm_instance_id info])"
    by (rule cleanup_runner_terminations)
next
  show "terminated (jp_calls (snd (poller_cleanup_runner cfg e name t)))
       = terminated (jp_calls t)
           @ (case map_of (jp_active_runners t) name of
                None \<Rightarrow> []
              | Some info \<Rightarrow> [jp_instance_id info])"
    by (rule poller_cleanup_terminations)
next
  assume a: "map_of (rm_active_runners s) name = Some info
        \<and> ec2_terminate_instances e (rm_instance_id info) \<noteq> Raises"
  then have m: "map_of (rm_active_runners s) name = Some info"
    and q: "ec2_terminate_instances e (rm_instance_id info) \<noteq> Raises" by simp_all
  show "fst (cleanup_runner e name s)" by (rule cleanup_runner_done(1) [OF m q])
  show d: "rm_active_runners (snd (cleanup_runner e name s))
              = AList.delete name (rm_active_runners s)"
    by (rule cleanup_runner_done(2) [OF m q])
  have "map_of (rm_active_runners (snd (cleanup_runner e name s))) name = None"
    by (simp add: d AList.delete_conv)
  then show "terminated (rm_calls (snd (cleanup_runner e2 name (snd (cleanup_runner e name s)))))
              = terminated (rm_calls s) @ [rm_instance_id info]"
    using cleanup_runner_terminations [of e2 name "snd (cleanup_runner e name s)"]
      cleanup_runner_terminations [of e name s] m
    by simp
next
  assume a: "map_of (rm_active_runners s) name = Some info
        \<and> ec2_terminate_instances e (rm_instance_id info) = Raises"
  then have m: "map_of (rm_active_runners s) name = Some info"
    and q: "ec2_terminate_instances e (rm_instance_id info) = Raises" by simp_all
  show "\<not> fst (cleanup_runner e name s)" by (rule cleanup_runner_raised(1) [OF m q])
  show d: "rm_active_runners (snd (cleanup_runner e name s)) = rm_active_runners s"
    by (rule cleanup_runner_raised(2) [OF m q])
  show "terminated (rm_calls (snd (cleanup_runner e2 name (snd (cleanup_runner e name s)))))
              = terminated (rm_calls s) @ [rm_instance_id info, rm_instance_id info]"
    using cleanup_runner_terminations [of e2 name "snd (cleanup_runner e name s)"]
      cleanup_runner_terminations [of e name s] m
    by (simp add: d)
next
  assume a: "map_of (jp_active_runners t) name = Some pinfo
        \<and> ec2_terminate_instances e (jp_instance_id pinfo) \<noteq> Raises"
  then have m: "map_of (jp_active_runners t) name = Some pinfo"
    and q: "ec2_terminate_instances e (jp_instance_id pinfo) \<noteq> Raises" by simp_all
  show d: "jp_active_runners (snd (poller_cleanup_runner cfg e name t))
              = AList.delete name (jp_active_runners t)"
    by (rule poller_cleanup_done [OF m q])
  have "map_of (jp_active_runners (snd (poller_cleanup_runner cfg e name t))) name = None"
    by (simp add: d AList.delete_conv)
  then show "terminated (jp_calls (snd (poller_cleanup_runner cfg e2 name
                (snd (poller_cleanup_runner cfg e name t)))))
              = terminated (jp_calls t) @ [jp_instance_id pinfo]"
    using poller_cleanup_terminations [of cfg e2 name "snd (poller_cleanup_runner cfg e name t)"]
      poller_cleanup_terminations [of cfg e name t] m
    by simp
next
  assume a: "map_of (jp_active_runners t) name = Some pinfo
        \<and> ec2_terminate_instances e (jp_instance_id pinfo) = Raises"
  then have m: "map_of (jp_active_runners t) name = Some pinfo"
    and q: "ec2_terminate_instances e (jp_instance_id pinfo) = Raises" by simp_all
  show d: "jp_active_runners (snd (poller_cleanup_runner cfg e name t)) = jp_active_runners t"
    by (rule poller_cleanup_raised(1) [OF m q])
  show "terminated (jp_calls (snd (poller_cleanup_runner cfg e2 name
                (snd (poller_cleanup_runner cfg e name t)))))
              = terminated (jp_calls t) @ [jp_instance_id pinfo, jp_instance_id pinfo]"
    using poller_cleanup_terminations [of cfg e2 name "snd (poller_cleanup_runner cfg e name t)"]
      poller_cleanup_terminations [of cfg e name t] m
    by (simp add: d)
qed


theorem cleanup_of_untracked_name_is_noop_witness:
  "map_of (rm_active_runners rm_tracking_42) ''runner-7-0badcafe'' = None
   \<and> cleanup_runner (example_env uuid_a uuid_b) ''runner-7-0badcafe'' rm_tracking_42
       = (False, rm_tracking_42)
   \<and> map_of (jp_active_runners jp_tracking_42) ''runner-7-0badcafe'' = None
   \<and> poller_cleanup_runner example_config (example_env uuid_a uuid_b) ''runner-7-0badcafe''
         jp_tracking_42 = (PyNone, jp_tracking_42)
   \<and> ec2_terminate_instances (example_env uuid_a uuid_b) ''i-0abc'' \<noteq> Raises
   \<and> fst (cleanup_runner (example_env uuid_a uuid_b) ''runner-42-deadbeef'' rm_tracking_42)
   \<and> terminated (rm_calls (snd (cleanup_runner env_terminate_raises ''runner-42-deadbeef''
         (snd (cleanup_runner (example_env uuid_a uuid_b) ''runner-42-deadbeef''
                 rm_tracking_42)))))
       = [''i-0abc'']
   \<and> terminated (jp_calls (snd (poller_cleanup_runner example_config env_terminate_raises
         ''runner-42-deadbeef''
         (snd (poller_cleanup_runner example_config (example_env uuid_a uuid_b)
                 ''runner-42-deadbeef'' jp_tracking_42)))))
       = [''i-0abc'']
   \<and> ec2_terminate_instances env_terminate_raises ''i-0abc'' = Raises
   \<and> \<not> fst (cleanup_runner env_terminate_raises ''runner-42-deadbeef'' rm_tracking_42)
   \<and> terminated (rm_calls (snd (cleanup_runner (example_env uuid_a uuid_b)
         ''runner-42-deadbeef''
         (snd (cleanup_runner env_terminate_raises ''runner-42-deadbeef'' rm_tracking_42)))))
       = [''i-0abc'', ''i-0abc'']
   \<and> terminated (jp_calls (snd (poller_cleanup_runner example_config
         (example_env uuid_a uuid_b) ''runner-42-deadbeef''
         (snd (poller_cleanup_runner example_config env_terminate_raises
                 ''runner-42-deadbeef'' jp_tracking_42)))))
       = [''i-0abc'', ''i-0abc'']"
proof -
  let ?e = "example_env uuid_a uuid_b"
  let ?ri = "\<lparr>rm_instance_id = ''i-0abc'', rm_owner = ''acme'', rm_repo = ''app'',
               rm_created_at = 900, rm_status = ''starting'', rm_config = config_42\<rparr>"
  let ?pi = "\<lparr>jp_job_id = 42, jp_instance_id = ''i-0abc'', jp_scale_set_id = ''7'',
               jp_scale_set_name = ''scaleset-42-cafebabe'', jp_repository = ''acme/app'',
               jp_created_at = 900, jp_status = ''starting'', jp_config = config_42\<rparr>"
  note T = cleanup_of_untracked_name_is_noop
  have h1: "map_of (rm_active_runners rm_tracking_42) ''runner-7-0badcafe'' = None"
    by (simp add: rm_tracking_42_def)
  have h2: "map_of (jp_active_runners jp_tracking_42) ''runner-7-0badcafe'' = None"
    by (simp add: jp_tracking_42_def)
  have m1: "map_of (rm_active_runners rm_tracking_42) ''runner-42-deadbeef'' = Some ?ri"
    and t1: "terminated (rm_calls rm_tracking_42) = []"
    by (simp_all add: rm_tracking_42_def)
  have m2: "map_of (jp_active_runners jp_tracking_42) ''runner-42-deadbeef'' = Some ?pi"
    and t2: "terminated (jp_calls jp_tracking_42) = []"
    by (simp_all add: jp_tracking_42_def)
  have q1: "ec2_terminate_instances ?e ''i-0abc'' \<noteq> Raises"
    by (simp add: example_env_def)
  have q2: "ec2_terminate_instances env_terminate_raises ''i-0abc'' = Raises"
    by (simp add: env_terminate_raises_def example_env_def)
  have a: "cleanup_runner ?e ''runner-7-0badcafe'' rm_tracking_42 = (False, rm_tracking_42)"
    using T [where s = rm_tracking_42 and name = "''runner-7-0badcafe''" and e = ?e] h1
    by blast
  have b: "poller_cleanup_runner example_config ?e ''runner-7-0badcafe'' jp_tracking_42
             = (PyNone, jp_tracking_42)"
    using T [where t = jp_tracking_42 and name = "''runner-7-0badcafe''" and e = ?e
        and cfg = example_config] h2
    by blast
  have c: "fst (cleanup_runner ?e ''runner-42-deadbeef'' rm_tracking_42)
      \<and> terminated (rm_calls (snd (cleanup_runner env_terminate_raises ''runner-42-deadbeef''
            (snd (cleanup_runner ?e ''runner-42-deadbeef'' rm_tracking_42)))))
          = [''i-0abc'']"
    using T [where s = rm_tracking_42 and name = "''runner-42-deadbeef''" and e = ?e
        and info = ?ri and ?e2.0 = env_terminate_raises] m1 q1
    by (simp add: t1)
  have d: "terminated (jp_calls (snd (poller_cleanup_runner example_config env_terminate_raises
            ''runner-42-deadbeef''
            (snd (poller_cleanup_runner example_config ?e ''runner-42-deadbeef''
                    jp_tracking_42)))))
          = [''i-0abc'']"
    using T [where t = jp_tracking_42 and name = "''runner-42-deadbeef''" and e = ?e
        and pinfo = ?pi and ?e2.0 = env_terminate_raises and cfg = example_config] m2 q1
    by (simp add: t2)
  have f: "\<not> fst (cleanup_runner env_terminate_raises ''runner-42-deadbeef'' rm_tracking_42)
      \<and> terminated (rm_calls (snd (cleanup_runner ?e ''runner-42-deadbeef''
            (snd (cleanup_runner env_terminate_raises ''runner-42-deadbeef''
                    rm_tracking_42)))))
          = [''i-0abc'', ''i-0abc'']"
    using T [where s = rm_tracking_42 and name = "''runner-42-deadbeef''"
        and e = env_terminate_raises and info = ?ri and ?e2.0 = ?e] m1 q2
    by (simp add: t1)
  have g: "terminated (jp_calls (snd (poller_cleanup_runner example_config ?e
            ''runner-42-deadbeef''
            (snd (poller_cleanup_runner example_config env_terminate_raises
                    ''runner-42-deadbeef'' jp_tracking_42)))))
          = [''i-0abc'', ''i-0abc'']"
    using T [where t = jp_tracking_42 and name = "''runner-42-deadbeef''"
        and e = env_terminate_raises and pinfo = ?pi and ?e2.0 = ?e and cfg = example_config]
      m2 q2
    by (simp add: t2)
  show ?thesis
    using h1 h2 q1 q2 a b c d f g by blast
qed

lemma cleanup_old_loop_zero:
  "cleanup_old_loop e ct 0 insts n calls =
     (let older = filter (\<lambda>i. float_age_hours e ct (ri_launch_time i) > 0) insts;
          quiet = takeWhile (\<lambda>i. ec2_terminate_instances e (ri_instance_id i) \<noteq> Raises) older
      in case drop (length quiet) older of
           [] \<Rightarrow>
             (Inr (n + int (length (filter
                     (\<lambda>i. ec2_terminate_instances e (ri_instance_id i) = Returns ()) older))),
              calls @ map (\<lambda>i. TerminateInstances (ri_instance_id i)) older)
         | i # rest \<Rightarrow>
             (Inl BotoCoreError,
              calls @ map (\<lambda>i. TerminateInstances (ri_instance_id i)) (quiet @ [i])))"
proof (induction insts arbitrary: n calls)
  case Nil
  show ?case by simp
next
  case (Cons a insts)
  show ?case
  proof (cases "float_age_hours e ct (ri_launch_time a) > 0")
    case False
    then show ?thesis using Cons.IH [of n calls] by simp
  next
    case True
    show ?thesis
    proof (cases "ec2_terminate_instances e (ri_instance_id a)")
      case (Returns u)
      then show ?thesis
        using True Cons.IH [of "n + 1" "calls @ [TerminateInstances (ri_instance_id a)]"]
        by (simp add: terminate_instance_def Let_def split: list.splits)
    next
      case ClientError
      then show ?thesis
        using True Cons.IH [of n "calls @ [TerminateInstances (ri_instance_id a)]"]
        by (simp add: terminate_instance_def Let_def split: list.splits)
    next
      case Raises
      then show ?thesis
        using True by (simp add: terminate_instance_def Let_def)
    qed
  qed
qed


lemma cleanup_old_instances_zero:
  "cleanup_old_instances e 0 calls =
     (case ec2_describe_instances e runner_instance_filters of
        Raises \<Rightarrow> (Inl BotoCoreError, calls @ [DescribeInstances runner_instance_filters])
      | ClientError \<Rightarrow> (Inr 0, calls @ [DescribeInstances runner_instance_filters])
      | Returns reservations \<Rightarrow>
          (let older = filter (\<lambda>i. float_age_hours e (now e) (ri_launch_time i) > 0)
                         (map runner_instance_of (concat reservations));
               quiet = takeWhile
                         (\<lambda>i. ec2_terminate_instances e (ri_instance_id i) \<noteq> Raises) older
           in case drop (length quiet) older of
                [] \<Rightarrow>
                  (Inr (int (length (filter
                          (\<lambda>i. ec2_terminate_instances e (ri_instance_id i) = Returns ())
                          older))),
                   calls @ DescribeInstances runner_instance_filters
                     # map (\<lambda>i. TerminateInstances (ri_instance_id i)) older)
              | i # rest \<Rightarrow>
                  (Inl BotoCoreError,
                   calls @ DescribeInstances runner_instance_filters
                     # map (\<lambda>i. TerminateInstances (ri_instance_id i)) (quiet @ [i]))))"
  by (simp add: cleanup_old_instances_def list_runner_instances_def cleanup_old_loop_zero
      Let_def split: outcome.splits list.splits)

text \<open>
  C9, as stated, fails: the registry tracks the runner of job 42 and the provider lists
  its instance. After \<open>POST /cleanup\<close> the instance has been terminated and counted, but
  the record is still in the registry, on either server.
\<close>

theorem manual_cleanup_keeps_record:
  "(let (resp, s) = manual_cleanup env_listing_42 rm_tracking_42
    in resp = (CleanedInstances 1, 200)
       \<and> terminated (rm_calls s) = [''i-0abc'']
       \<and> rm_active_runners s = rm_active_runners rm_tracking_42
       \<and> map fst (rm_active_runners s) = [''runner-42-deadbeef''])
   \<and> (let (resp, t) = poller_manual_cleanup env_listing_42 jp_tracking_42
      in resp = (CleanedInstances 1, 200)
         \<and> terminated (jp_calls t) = [''i-0abc'']
         \<and> map fst (jp_active_runners t) = [''runner-42-deadbeef''])"
  by code_simp

text \<open>
  C9, amended. \<open>POST /cleanup\<close> asks the provider for the instances tagged
  \<open>Type = github-actions-runner\<close> in state \<open>running\<close> or \<open>pending\<close> and requests, in
  the order listed, the termination of every listed instance whose age in hours, as the
  program computes it, is greater than 0. If no request raises anything but
  \<open>ClientError\<close>, it answers 200 with the number of terminations that the provider
  accepted; a \<open>ClientError\<close> on the listing counts as an empty listing and one on a
  termination as an instance not cleaned. If the listing or a termination raises another
  exception, the pass ends with that request and the answer is 500 with the error. In
  every case the registry is neither read nor changed.
\<close>

theorem manual_cleanup_terminates_listed_instances:
  "manual_cleanup e s =
     (case ec2_describe_instances e runner_instance_filters of
        Raises \<Rightarrow>
          ((ErrorOf BotoCoreError, 500),
           s\<lparr>rm_calls := rm_calls s @ [DescribeInstances runner_instance_filters]\<rparr>)
      | ClientError \<Rightarrow>
          ((CleanedInstances 0, 200),
           s\<lparr>rm_calls := rm_calls s @ [DescribeInstances runner_instance_filters]\<rparr>)
      | Returns reservations \<Rightarrow>
          (let older = filter (\<lambda>i. float_age_hours e (now e) (ri_launch_time i) > 0)
                         (map runner_instance_of (concat reservations));
               quiet = takeWhile
                         (\<lambda>i. ec2_terminate_instances e (ri_instance_id i) \<noteq> Raises) older
           in case drop (length quiet) older of
                [] \<Rightarrow>
                  ((CleanedInstances (int (length (filter
                          (\<lambda>i. ec2_terminate_instances e (ri_instance_id i) = Returns ())
                          older))), 200),
                   s\<lparr>rm_calls := rm_calls s @ DescribeInstances runner_instance_filters
                        # map (\<lambda>i. TerminateInstances (ri_instance_id i)) older\<rparr>)
              | i # rest \<Rightarrow>
                  ((ErrorOf BotoCoreError, 500),
                   s\<lparr>rm_calls := rm_calls s @ DescribeInstances runner_instance_filters
                        # map (\<lambda>i. TerminateInstances (ri_instance_id i)) (quiet @ [i])\<rparr>)))
   \<and> poller_manual_cleanup e t =
     (case ec2_describe_instances e runner_instance_filters of
        Raises \<Rightarrow>
          ((ErrorOf BotoCoreError, 500),
           t\<lparr>jp_calls := jp_calls t @ [DescribeInstances runner_instance_filters]\<rparr>)
      | ClientError \<Rightarrow>
          ((CleanedInstances 0, 200),
           t\<lparr>jp_calls := jp_calls t @ [DescribeInstances runner_instance_filters]\<rparr>)
      | Returns reservations \<Rightarrow>
          (let older = filter (\<lambda>i. float_age_hours e (now e) (ri_launch_time i) > 0)
                         (map runner_instance_of (concat reservations));
               quiet = takeWhile
                         (\<lambda>i. ec2_terminate_instances e (ri_instance_id i) \<noteq> Raises) older
           in case drop (length quiet) older of
                [] \<Rightarrow>
                  ((CleanedInstances (int (length (filter
                          (\<lambda>i. ec2_terminate_instances e (ri_instance_id i) = Returns ())
                          older))), 200),
                   t\<lparr>jp_calls := jp_calls t @ DescribeInstances runner_instance_filters
                        # map (\<lambda>i. TerminateInstances (ri_instance_id i)) older\<rparr>)
              | i # rest \<Rightarrow>
                  ((ErrorOf BotoCoreError, 500),
                   t\<lparr>jp_calls := jp_calls t @ DescribeInstances runner_instance_filters
                        # map (\<lambda>i. TerminateInstances (ri_instance_id i)) (quiet @ [i])\<rparr>)))
   \<and> rm_active_runners (snd (manual_cleanup e s)) = rm_active_runners s
   \<and> jp_active_runners (snd (poller_manual_cleanup e t)) = jp_active_runners t
   \<and> scale_sets (snd (poller_manual_cleanup e t)) = scale_sets t"
proof (intro conjI)
  show "rm_active_runners (snd (manual_cleanup e s)) = rm_active_runners s"
    by (simp add: manual_cleanup_def split: prod.splits sum.splits)
  show "jp_active_runners (snd (poller_manual_cleanup e t)) = jp_active_runners t"
    by (simp add: poller_manual_cleanup_def split: prod.splits sum.splits)
  show "scale_sets (snd (poller_manual_cleanup e t)) = scale_sets t"
    by (simp add: poller_manual_cleanup_def split: prod.splits sum.splits)
qed (simp_all add: manual_cleanup_def poller_manual_cleanup_def cleanup_old_instances_zero
      Let_def split: outcome.splits list.splits)

section \<open>Signature verification\<close>

lemma missing_signature_rejected:
  "handle_webhook hmac_hex cfg e (req\<lparr>header_signature := None\<rparr>) s
     = ((Error ''Invalid signature'', 401), s)"
  by (simp add: handle_webhook_def verify_signature_def)

text \<open>
  C5 fails on the well-signed request. For every key \<open>S\<close>, body \<open>B\<close> and keyed hash, the
  header \<open>"sha256=" + hex(HMAC(S, B))\<close> is not accepted: the verifier reads a
  configuration field that does not exist, the attribute error leaves the handler
  through its outer \<open>except\<close>, and the answer is 500 with the state unchanged.
\<close>

theorem signed_request_raises_attribute_error:
  "verify_signature hmac_hex cfg B (Some (''sha256='' @ hmac_hex S B)) = Inl AttributeError
   \<and> handle_webhook hmac_hex cfg e
        \<lparr>data = B, header_signature = Some (''sha256='' @ hmac_hex S B),
         header_event = ev, get_json = js\<rparr> s
       = ((Error ''Internal server error'', 500), s)"
  by (simp add: handle_webhook_def verify_signature_def getattr_github_webhook_secret_def)

end
